theory Spec2Isabelle
  imports Main
begin

section \<open>Go values shared by both source files\<close>

text \<open>
  A Go \<open>error\<close> value is modelled by its message.  A function that returns
  \<open>(v, err)\<close> and whose caller looks at \<open>err\<close> first is a sum
  \<open>error + 'a\<close>; where the caller may use both components the pair is kept.
  A run that ends in a Go panic (an explicit \<open>panic(err)\<close> or a nil-pointer
  dereference) is the outcome \<open>Panic\<close>.
\<close>

datatype error = Error string

datatype 'a outcome = Return 'a | Panic

section \<open>Directory synchronisation (package object)\<close>

subsection \<open>Data\<close>

text \<open>The struct \<open>LdapUser\<close> of the source, field for field.\<close>

record LdapUser =
  LdapUser_UidNumber :: string
  LdapUser_Uid :: string
  LdapUser_Cn :: string
  LdapUser_GidNumber :: string
  LdapUser_Uuid :: string
  LdapUser_UserPrincipalName :: string
  LdapUser_DisplayName :: string
  LdapUser_Mail :: string
  LdapUser_Email :: string
  LdapUser_EmailAddress :: string
  LdapUser_TelephoneNumber :: string
  LdapUser_Mobile :: string
  LdapUser_MobileTelephoneNumber :: string
  LdapUser_RegisteredAddress :: string
  LdapUser_PostalAddress :: string
  LdapUser_GroupId :: string
  LdapUser_Address :: string
  LdapUser_MemberOf :: string
  LdapUser_Roles :: "string list"

text \<open>
  The structs \<open>User\<close>, \<open>UserIdProvider\<close>, \<open>Organization\<close> and \<open>Ldap\<close> are
  declared outside the two source files; the records below carry the fields that the
  source reads or writes.
\<close>

record User =
  User_Owner :: string
  User_Name :: string
  User_CreatedTime :: string
  User_Id :: string
  User_Type :: string
  User_DisplayName :: string
  User_Avatar :: string
  User_Email :: string
  User_Phone :: string
  User_Address :: "string list"
  User_Affiliation :: string
  User_Tag :: string
  User_Score :: int
  User_IsAdmin :: bool
  User_SignupApplication :: string
  User_Ldap :: string
  User_Properties :: "(string \<times> string) list"
  User_SigninWrongTimes :: int

record UserIdProvider =
  UserIdProvider_Owner :: string
  UserIdProvider_LdapId :: string
  UserIdProvider_UsernameFromIdp :: string
  UserIdProvider_CreatedTime :: string
  UserIdProvider_UserId :: string

record Organization =
  Organization_Name :: string
  Organization_DefaultApplication :: string
  Organization_DefaultAvatar :: string

record Ldap =
  Ldap_Id :: string
  Ldap_BaseDn :: string
  Ldap_Username :: string
  Ldap_EnableRoleMapping :: bool

record LdapConn =
  LdapConn_IsAD :: bool

definition zero_User :: User where
  "zero_User = \<lparr>User_Owner = [], User_Name = [], User_CreatedTime = [], User_Id = [],
     User_Type = [], User_DisplayName = [], User_Avatar = [], User_Email = [],
     User_Phone = [], User_Address = [], User_Affiliation = [], User_Tag = [],
     User_Score = 0, User_IsAdmin = False, User_SignupApplication = [], User_Ldap = [],
     User_Properties = [], User_SigninWrongTimes = 0\<rparr>"

definition zero_LdapUser :: LdapUser where
  "zero_LdapUser = \<lparr>LdapUser_UidNumber = [], LdapUser_Uid = [], LdapUser_Cn = [],
     LdapUser_GidNumber = [], LdapUser_Uuid = [], LdapUser_UserPrincipalName = [],
     LdapUser_DisplayName = [], LdapUser_Mail = [], LdapUser_Email = [],
     LdapUser_EmailAddress = [], LdapUser_TelephoneNumber = [], LdapUser_Mobile = [],
     LdapUser_MobileTelephoneNumber = [], LdapUser_RegisteredAddress = [],
     LdapUser_PostalAddress = [], LdapUser_GroupId = [], LdapUser_Address = [],
     LdapUser_MemberOf = [], LdapUser_Roles = []\<rparr>"

subsection \<open>The store and the calls made on it\<close>

text \<open>
  Every call that leaves the source file (the ORM engine, the other files of package
  \<open>object\<close>, the directory connection, the random source) is recorded, in order, in
  the \<open>trace\<close> of the world, with the arguments it was given.  The stored state is
  the user table \<open>users\<close>, in the order in which the engine returns rows, the table
  \<open>links\<close> of identity links, and the table \<open>roles\<close> of the role names assigned to user
  ids.
\<close>

datatype call =
    Call_getOrganization string string
  | Call_GetLdap string
  | Call_GetExistUuids string "string list"
  | Call_GetUserByNames string string
  | Call_randstr_Hex nat
  | Call_GetInitScore
  | Call_AddUser User
  | Call_AddUserIdProvider UserIdProvider
  | Call_SyncRoles LdapUser string string
  | Call_GetLdaps string
  | Call_GetLdapConn string
  | Call_GetLdapUsers string string
  | Call_CheckLdapUserPassword string string

type_synonym role_table = "(string \<times> string list) list"

record world =
  users :: "User list"
  links :: "UserIdProvider list"
  roles :: role_table
  trace :: "call list"

definition record_call :: "call \<Rightarrow> world \<Rightarrow> world" where
  "record_call c w = w\<lparr>trace := trace w @ [c]\<rparr>"

text \<open>
  The collaborators: the functions that are not in the source files, and
  \<open>GetLdapConn\<close> and \<open>GetLdapUsers\<close>, which talk to the directory server.  Each is a
  function of the world at the moment of the call (so its answer may change from one call
  to the next) and of its arguments.  \<open>orm_error\<close> is the error, if any, that the ORM engine reports for a
  query; \<open>AddUser\<close> answers with the error, or with the affected flag and the user as
  the callee left it behind its pointer (it fills in \<open>Id\<close>); \<open>AddUserIdProvider\<close> and
  \<open>SyncRoles\<close> answer with their error and with the table of identity links, or of
  role assignments, as the call leaves it; \<open>ReturnAnyNotEmpty\<close> is the helper of package
  \<open>util\<close>, and \<open>random\<close> gives the random values behind \<open>randstr.Hex\<close>.
\<close>

record env =
  orm_error :: "world \<Rightarrow> error option"
  ReturnAnyNotEmpty :: "string list \<Rightarrow> string"
  random :: "world \<Rightarrow> nat \<Rightarrow> nat"
  getOrganization :: "world \<Rightarrow> string \<Rightarrow> string \<Rightarrow> error + Organization option"
  GetLdap :: "world \<Rightarrow> string \<Rightarrow> Ldap option \<times> error option"
  GetInitScore :: "world \<Rightarrow> Organization option \<Rightarrow> error + int"
  GetCurrentTime :: "world \<Rightarrow> string"
  AddUser :: "world \<Rightarrow> User \<Rightarrow> error + (bool \<times> User)"
  AddUserIdProvider :: "world \<Rightarrow> UserIdProvider \<Rightarrow> error option \<times> UserIdProvider list"
  SyncRoles :: "world \<Rightarrow> LdapUser \<Rightarrow> string \<Rightarrow> string \<Rightarrow> error option \<times> role_table"
  GetLdaps :: "world \<Rightarrow> string \<Rightarrow> error + Ldap list"
  GetLdapConn :: "world \<Rightarrow> Ldap \<Rightarrow> error + LdapConn"
  GetLdapUsers :: "world \<Rightarrow> LdapConn \<Rightarrow> Ldap \<Rightarrow> User \<Rightarrow> LdapUser list \<times> error option"
  CheckLdapUserPassword :: "world \<Rightarrow> User \<Rightarrow> string \<Rightarrow> string \<Rightarrow> string \<times> error option"

subsection \<open>Strings\<close>

text \<open>\<open>strings.Split(s, sep)\<close> for a one-byte separator: an empty \<open>s\<close> gives one empty piece.\<close>

fun Split :: "string \<Rightarrow> char \<Rightarrow> string list" where
  "Split [] sep = [[]]"
| "Split (c # cs) sep =
     (if c = sep then [] # Split cs sep
      else (case Split cs sep of [] \<Rightarrow> [[c]] | p # ps \<Rightarrow> (c # p) # ps))"

text \<open>\<open>strings.Contains(s, sub)\<close>.\<close>

fun Contains :: "string \<Rightarrow> string \<Rightarrow> bool" where
  "Contains [] sub = (sub = [])"
| "Contains (c # cs) sub = (take (length sub) (c # cs) = sub \<or> Contains cs sub)"

text \<open>\<open>strings.Join(xs, sep)\<close>.\<close>

fun Join :: "string list \<Rightarrow> string \<Rightarrow> string" where
  "Join [] sep = []"
| "Join [x] sep = x"
| "Join (x # y # ys) sep = x @ sep @ Join (y # ys) sep"

subsection \<open>Names and identifiers of a directory record\<close>

text \<open>
  Modelled from the spec: \<open>randstr.Hex\<close> is not in the source files.  The spec has
  \<open>Hex(n)\<close> give a random string of \<open>n\<close> hex characters; the \<open>i\<close>-th character is the
  hex digit of the \<open>i\<close>-th random value at the moment of the call.
\<close>

definition hex_digits :: string where
  "hex_digits = ''0123456789abcdef''"

definition randstr_Hex :: "env \<Rightarrow> world \<Rightarrow> nat \<Rightarrow> string" where
  "randstr_Hex e w n = map (\<lambda>i. hex_digits ! (random e w i mod 16)) [0..<n]"

definition uidWithNumber :: "LdapUser \<Rightarrow> string" where
  "uidWithNumber ldapUser = LdapUser_Uid ldapUser @ ''_'' @ LdapUser_UidNumber ldapUser"

text \<open>
  \<open>buildLdapUserName\<close>: one ORM query \<open>Where("name = ? or name = ?", uid,
  uidWithNumber).Get(&user)\<close>, which yields the first row that matches, then the three
  cases on that row; without a row the uid, or the common name when the uid is empty.
\<close>

definition buildLdapUserName :: "env \<Rightarrow> LdapUser \<Rightarrow> world \<Rightarrow> (error + string) \<times> world" where
  "buildLdapUserName e ldapUser w =
     (let w1 = record_call (Call_GetUserByNames (LdapUser_Uid ldapUser) (uidWithNumber ldapUser)) w in
      case orm_error e w of
        Some err \<Rightarrow> (Inl err, w1)
      | None \<Rightarrow>
          (case find (\<lambda>u. User_Name u = LdapUser_Uid ldapUser \<or> User_Name u = uidWithNumber ldapUser) (users w) of
             Some user \<Rightarrow>
               if User_Ldap user = LdapUser_Uuid ldapUser then (Inr (User_Name user), w1)
               else if User_Name user = LdapUser_Uid ldapUser then (Inr (uidWithNumber ldapUser), w1)
               else (Inr (uidWithNumber ldapUser @ ''_'' @ randstr_Hex e w1 6),
                     record_call (Call_randstr_Hex 6) w1)
           | None \<Rightarrow>
               if LdapUser_Uid ldapUser \<noteq> [] then (Inr (LdapUser_Uid ldapUser), w1)
               else (Inr (LdapUser_Cn ldapUser), w1)))"

definition buildLdapDisplayName :: "LdapUser \<Rightarrow> string" where
  "buildLdapDisplayName ldapUser =
     (if LdapUser_DisplayName ldapUser \<noteq> [] then LdapUser_DisplayName ldapUser
      else LdapUser_Cn ldapUser)"

definition GetLdapUuid :: "LdapUser \<Rightarrow> string" where
  "GetLdapUuid ldapUser =
     (if LdapUser_Uuid ldapUser \<noteq> [] then LdapUser_Uuid ldapUser
      else if LdapUser_Uid ldapUser \<noteq> [] then LdapUser_Uid ldapUser
      else LdapUser_Cn ldapUser)"

text \<open>
  \<open>AutoAdjustLdapUser\<close>: fields that the struct literal of the source does not name keep
  Go's zero value.
\<close>

definition AutoAdjustLdapUser :: "env \<Rightarrow> LdapUser list \<Rightarrow> LdapUser list" where
  "AutoAdjustLdapUser e us = map (\<lambda>user. zero_LdapUser\<lparr>
       LdapUser_UidNumber := LdapUser_UidNumber user,
       LdapUser_Uid := LdapUser_Uid user,
       LdapUser_Cn := LdapUser_Cn user,
       LdapUser_GroupId := LdapUser_GidNumber user,
       LdapUser_Uuid := GetLdapUuid user,
       LdapUser_DisplayName := LdapUser_DisplayName user,
       LdapUser_Email := ReturnAnyNotEmpty e
          [LdapUser_Email user, LdapUser_EmailAddress user, LdapUser_Mail user],
       LdapUser_Mobile := ReturnAnyNotEmpty e
          [LdapUser_Mobile user, LdapUser_MobileTelephoneNumber user, LdapUser_TelephoneNumber user],
       LdapUser_MobileTelephoneNumber := LdapUser_MobileTelephoneNumber user,
       LdapUser_RegisteredAddress := ReturnAnyNotEmpty e
          [LdapUser_PostalAddress user, LdapUser_RegisteredAddress user],
       LdapUser_Address := LdapUser_Address user,
       LdapUser_Roles := LdapUser_Roles user\<rparr>) us"

subsection \<open>SyncLdapUsers\<close>

text \<open>
  \<open>GetExistUuids\<close>: the distinct \<open>ldap\<close> values of the owner's rows that are among
  \<open>uuids\<close>, or the engine's error.
\<close>

definition GetExistUuids :: "env \<Rightarrow> string \<Rightarrow> string list \<Rightarrow> world \<Rightarrow> (error + string list) \<times> world" where
  "GetExistUuids e owner uuids w =
     (let w1 = record_call (Call_GetExistUuids owner uuids) w in
      case orm_error e w of
        Some err \<Rightarrow> (Inl err, w1)
      | None \<Rightarrow>
          (Inr (remdups (filter (\<lambda>x. x \<in> set uuids)
                  (map User_Ldap (filter (\<lambda>u. User_Owner u = owner) (users w))))), w1))"

text \<open>What the loop of \<open>SyncLdapUsers\<close> reads but does not change.\<close>

record sync_ctx =
  ctx_owner :: string
  ctx_uuids :: "string list"
  ctx_organization :: "Organization option"
  ctx_affiliation :: string
  ctx_tag :: string
  ctx_ldapId :: string

type_synonym sync_result = "(LdapUser list \<times> LdapUser list \<times> error option) outcome"

text \<open>
  One pass through the loop body either goes on to the next record (\<open>continue\<close> or the
  end of the body) with the two result lists, or leaves the function.
\<close>

datatype sync_step =
    Next "LdapUser list" "LdapUser list" world
  | Stop sync_result world

text \<open>
  Modelled from the spec: \<open>AddUser\<close>, the "create user" of the persistence
  collaborator, is not in the source files.  A user that it reports as affected is a row
  of the user table from then on; after an error or an unaffected answer the table is as
  before.
\<close>

definition store_user :: "User \<Rightarrow> world \<Rightarrow> world" where
  "store_user stored w = w\<lparr>users := users w @ [stored]\<rparr>"

text \<open>
  The tables of identity links and of role assignments as \<open>AddUserIdProvider\<close> and
  \<open>SyncRoles\<close>, which are not in the source files, leave them.
\<close>

definition store_links :: "UserIdProvider list \<Rightarrow> world \<Rightarrow> world" where
  "store_links table w = w\<lparr>links := table\<rparr>"

definition store_roles :: "role_table \<Rightarrow> world \<Rightarrow> world" where
  "store_roles table w = w\<lparr>roles := table\<rparr>"

text \<open>
  The body of \<open>if !found\<close>: the record's account is created and linked.  A nil
  organization makes the struct literal of the new user panic.
\<close>

datatype create_step =
    Created world
  | NotAffected world
  | Left sync_result world

definition SyncLdapUsers_create :: "env \<Rightarrow> sync_ctx \<Rightarrow> LdapUser \<Rightarrow> string \<Rightarrow> world \<Rightarrow> create_step" where
  "SyncLdapUsers_create e cx syncUser name w =
     (let w1 = record_call Call_GetInitScore w in
      case GetInitScore e w (ctx_organization cx) of
        Inl err \<Rightarrow> Left (Return ([], [], Some err)) w1
      | Inr score \<Rightarrow>
          (case ctx_organization cx of
             None \<Rightarrow> Left Panic w1
           | Some organization \<Rightarrow>
               (let newUser = zero_User\<lparr>
                      User_Owner := ctx_owner cx,
                      User_Name := name,
                      User_CreatedTime := GetCurrentTime e w1,
                      User_DisplayName := buildLdapDisplayName syncUser,
                      User_SignupApplication := Organization_DefaultApplication organization,
                      User_Type := ''normal-user'',
                      User_Avatar := Organization_DefaultAvatar organization,
                      User_Email := LdapUser_Email syncUser,
                      User_Phone := LdapUser_Mobile syncUser,
                      User_Address := [LdapUser_Address syncUser],
                      User_Affiliation := ctx_affiliation cx,
                      User_Tag := ctx_tag cx,
                      User_Score := score,
                      User_Ldap := LdapUser_Uuid syncUser,
                      User_Properties := []\<rparr>;
                    w2 = record_call (Call_AddUser newUser) w1
                in case AddUser e w1 newUser of
                     Inl err \<Rightarrow> Left (Return ([], [], Some err)) w2
                   | Inr (affected, stored) \<Rightarrow>
                       if \<not> affected then NotAffected w2
                       else
                         (let w3 = store_user stored w2;
                              userIdProvider = \<lparr>
                                UserIdProvider_Owner = Organization_Name organization,
                                UserIdProvider_LdapId = ctx_ldapId cx,
                                UserIdProvider_UsernameFromIdp = LdapUser_Uuid syncUser,
                                UserIdProvider_CreatedTime = GetCurrentTime e w3,
                                UserIdProvider_UserId = User_Id stored\<rparr>;
                              w4 = store_links (snd (AddUserIdProvider e w3 userIdProvider))
                                     (record_call (Call_AddUserIdProvider userIdProvider) w3)
                          in case fst (AddUserIdProvider e w3 userIdProvider) of
                               Some err \<Rightarrow> Left (Return ([], [], Some err)) w4
                             | None \<Rightarrow> Created w4))))"

text \<open>
  The end of the loop body, reached for found and for created records alike: the
  directory configuration is read again and, with role mapping enabled, \<open>SyncRoles\<close>
  is called for the record.
\<close>

definition SyncLdapUsers_roles ::
    "env \<Rightarrow> sync_ctx \<Rightarrow> LdapUser \<Rightarrow> string \<Rightarrow> LdapUser list \<Rightarrow> LdapUser list \<Rightarrow> world \<Rightarrow> sync_step" where
  "SyncLdapUsers_roles e cx syncUser name existUsers failedUsers w =
     (let w1 = record_call (Call_GetLdap (ctx_ldapId cx)) w in
      case GetLdap e w (ctx_ldapId cx) of
        (_, Some err) \<Rightarrow> Stop (Return (existUsers, failedUsers, Some err)) w1
      | (None, None) \<Rightarrow> Stop Panic w1
      | (Some ldap, None) \<Rightarrow>
          if Ldap_EnableRoleMapping ldap then
            (let w2 = store_roles (snd (SyncRoles e w1 syncUser name (ctx_owner cx)))
                        (record_call (Call_SyncRoles syncUser name (ctx_owner cx)) w1) in
             case fst (SyncRoles e w1 syncUser name (ctx_owner cx)) of
               Some err \<Rightarrow> Stop (Return (existUsers, failedUsers, Some err)) w2
             | None \<Rightarrow> Next existUsers failedUsers w2)
          else Next existUsers failedUsers w1)"

text \<open>
  The loop body.  The record is appended to \<open>existUsers\<close> once for every element of
  \<open>existUuids\<close> that equals its uuid.
\<close>

definition SyncLdapUsers_step ::
    "env \<Rightarrow> sync_ctx \<Rightarrow> LdapUser \<Rightarrow> LdapUser list \<Rightarrow> LdapUser list \<Rightarrow> world \<Rightarrow> sync_step" where
  "SyncLdapUsers_step e cx syncUser existUsers failedUsers w =
     (case GetExistUuids e (ctx_owner cx) (ctx_uuids cx) w of
        (Inl err, w1) \<Rightarrow> Stop (Return ([], [], Some err)) w1
      | (Inr existUuids, w1) \<Rightarrow>
          (let hits = filter (\<lambda>existUuid. LdapUser_Uuid syncUser = existUuid) existUuids;
               existUsers1 = existUsers @ map (\<lambda>_. syncUser) hits;
               found = (hits \<noteq> [])
           in case buildLdapUserName e syncUser w1 of
                (Inl err, w2) \<Rightarrow> Stop (Return ([], [], Some err)) w2
              | (Inr name, w2) \<Rightarrow>
                  if \<not> found then
                    (case SyncLdapUsers_create e cx syncUser name w2 of
                       Left r w3 \<Rightarrow> Stop r w3
                     | NotAffected w3 \<Rightarrow> Next existUsers1 (failedUsers @ [syncUser]) w3
                     | Created w3 \<Rightarrow>
                         SyncLdapUsers_roles e cx syncUser name existUsers1 failedUsers w3)
                  else SyncLdapUsers_roles e cx syncUser name existUsers1 failedUsers w2))"

text \<open>
  The \<open>for\<close> loop over \<open>syncUsers\<close>.  \<open>err\<close> is the function's named result, last
  assigned by the call of \<open>GetLdap\<close> before the loop; the loop body declares its own.
\<close>

fun SyncLdapUsers_loop ::
    "env \<Rightarrow> sync_ctx \<Rightarrow> error option \<Rightarrow> LdapUser list \<Rightarrow> LdapUser list \<Rightarrow> LdapUser list \<Rightarrow> world
      \<Rightarrow> sync_result \<times> world" where
  "SyncLdapUsers_loop e cx err [] existUsers failedUsers w =
     (Return (existUsers, failedUsers, err), w)"
| "SyncLdapUsers_loop e cx err (syncUser # rest) existUsers failedUsers w =
     (case SyncLdapUsers_step e cx syncUser existUsers failedUsers w of
        Next existUsers' failedUsers' w' \<Rightarrow> SyncLdapUsers_loop e cx err rest existUsers' failedUsers' w'
      | Stop r w' \<Rightarrow> (r, w'))"

text \<open>The \<open>dc=\<close> or \<open>ou=\<close> components of a distinguished name, joined by dots.\<close>

definition dn_parts :: "string \<Rightarrow> string \<Rightarrow> string" where
  "dn_parts key dn = Join (map (drop 3) (filter (\<lambda>part. Contains part key) (Split dn CHR '',''))) ''.''"

definition SyncLdapUsers :: "env \<Rightarrow> string \<Rightarrow> LdapUser list \<Rightarrow> string \<Rightarrow> world \<Rightarrow> sync_result \<times> world" where
  "SyncLdapUsers e owner syncUsers ldapId w =
     (let uuids = map LdapUser_Uuid syncUsers;
          w1 = record_call (Call_getOrganization ''admin'' owner) w
      in case getOrganization e w ''admin'' owner of
           Inl err \<Rightarrow> (Panic, w1)
         | Inr organization \<Rightarrow>
             (let w2 = record_call (Call_GetLdap ldapId) w1
              in case GetLdap e w1 ldapId of
                   (None, err) \<Rightarrow> (Panic, w2)
                 | (Some ldap, err) \<Rightarrow>
                     SyncLdapUsers_loop e
                       \<lparr>ctx_owner = owner, ctx_uuids = uuids, ctx_organization = organization,
                        ctx_affiliation = dn_parts ''dc='' (Ldap_BaseDn ldap),
                        ctx_tag = dn_parts ''ou='' (Ldap_Username ldap),
                        ctx_ldapId = ldapId\<rparr>
                       err syncUsers [] [] w2))"

subsection \<open>SyncUserFromLdap\<close>

text \<open>
  The loop over the organization's directory servers.  \<open>GetLdapConn\<close> and
  \<open>GetLdapUsers\<close> talk to the directory server and are taken by their results; the
  error of \<open>GetLdapUsers\<close> is dropped by the source (\<open>res, _ :=\<close>), and \<open>Close\<close>
  does nothing.
\<close>

fun SyncUserFromLdap_loop ::
    "env \<Rightarrow> string \<Rightarrow> string \<Rightarrow> User \<Rightarrow> string \<Rightarrow> string \<Rightarrow> Ldap list \<Rightarrow> world
      \<Rightarrow> (LdapUser option \<times> error option) outcome \<times> world" where
  "SyncUserFromLdap_loop e organization ldapId user password lang [] w =
     (Return (None, None), w)"
| "SyncUserFromLdap_loop e organization ldapId user password lang (ldapServer # rest) w =
     (if length ldapId > 0 \<and> Ldap_Id ldapServer \<noteq> ldapId
      then SyncUserFromLdap_loop e organization ldapId user password lang rest w
      else
        (let w1 = record_call (Call_GetLdapConn (Ldap_Id ldapServer)) w in
         case GetLdapConn e w ldapServer of
           Inl err \<Rightarrow> SyncUserFromLdap_loop e organization ldapId user password lang rest w1
         | Inr conn \<Rightarrow>
             (let w2 = record_call (Call_GetLdapUsers (Ldap_Id ldapServer) (User_Name user)) w1 in
              case fst (GetLdapUsers e w1 conn ldapServer user) of
                [] \<Rightarrow> SyncUserFromLdap_loop e organization ldapId user password lang rest w2
              | res0 # res' \<Rightarrow>
                  (let w3 = record_call (Call_CheckLdapUserPassword (User_Name user) password) w2 in
                   case snd (CheckLdapUserPassword e w2 user password lang) of
                     Some err \<Rightarrow> (Return (None, Some err), w3)
                   | None \<Rightarrow>
                       (case SyncLdapUsers e organization (AutoAdjustLdapUser e (res0 # res'))
                               (Ldap_Id ldapServer) w3 of
                          (Panic, w4) \<Rightarrow> (Panic, w4)
                        | (Return (existUsers, failedUsers, err), w4) \<Rightarrow>
                            (Return (Some res0, err), w4))))))"

definition SyncUserFromLdap ::
    "env \<Rightarrow> string \<Rightarrow> string \<Rightarrow> string \<Rightarrow> string \<Rightarrow> string \<Rightarrow> world
      \<Rightarrow> (LdapUser option \<times> error option) outcome \<times> world" where
  "SyncUserFromLdap e organization ldapId userName password lang w =
     (let w1 = record_call (Call_GetLdaps organization) w in
      case GetLdaps e w organization of
        Inl err \<Rightarrow> (Return (None, Some err), w1)
      | Inr ldaps \<Rightarrow>
          SyncUserFromLdap_loop e organization ldapId (zero_User\<lparr>User_Name := userName\<rparr>)
            password lang ldaps w1)"

subsection \<open>Observations on a run\<close>

text \<open>The owner has a local user whose LDAP back-reference is \<open>uuid\<close>.\<close>

definition local_uuid :: "world \<Rightarrow> string \<Rightarrow> string \<Rightarrow> bool" where
  "local_uuid w owner uuid = (\<exists>u\<in>set (users w). User_Owner u = owner \<and> User_Ldap u = uuid)"

text \<open>The calls that a run added to the trace.\<close>

definition new_calls :: "world \<Rightarrow> world \<Rightarrow> call list" where
  "new_calls w w' = drop (length (trace w)) (trace w')"

fun is_GetExistUuids :: "call \<Rightarrow> bool" where
  "is_GetExistUuids (Call_GetExistUuids owner uuids) = True"
| "is_GetExistUuids c = False"

fun is_AddUser :: "call \<Rightarrow> bool" where
  "is_AddUser (Call_AddUser u) = True"
| "is_AddUser c = False"

fun is_AddUserIdProvider :: "call \<Rightarrow> bool" where
  "is_AddUserIdProvider (Call_AddUserIdProvider p) = True"
| "is_AddUserIdProvider c = False"

fun is_SyncRoles :: "call \<Rightarrow> bool" where
  "is_SyncRoles (Call_SyncRoles ldapUser name owner) = True"
| "is_SyncRoles c = False"

text \<open>
  \<open>grows w w' Q\<close>: from \<open>w\<close> to \<open>w'\<close> the user table and the trace were only appended
  to, every call that was added satisfies \<open>Q\<close>, the identity links differ only if
  \<open>AddUserIdProvider\<close> was called, and the role assignments only if \<open>SyncRoles\<close> was.
\<close>

definition grows :: "world \<Rightarrow> world \<Rightarrow> (call \<Rightarrow> bool) \<Rightarrow> bool" where
  "grows w w' Q \<longleftrightarrow>
     (\<exists>added new. users w' = users w @ added \<and> trace w' = trace w @ new \<and> (\<forall>c\<in>set new. Q c) \<and>
        (links w' \<noteq> links w \<longrightarrow> (\<exists>c\<in>set new. is_AddUserIdProvider c)) \<and>
        (roles w' \<noteq> roles w \<longrightarrow> (\<exists>c\<in>set new. is_SyncRoles c)))"

text \<open>
  The directory configuration \<open>ldapId\<close> is never read with role mapping enabled.
\<close>

definition role_mapping_off :: "env \<Rightarrow> string \<Rightarrow> bool" where
  "role_mapping_off e ldapId \<longleftrightarrow>
     (\<forall>w ldap err. GetLdap e w ldapId = (Some ldap, err) \<longrightarrow> \<not> Ldap_EnableRoleMapping ldap)"

text \<open>A call that creates the account or the identity link of the directory uuid \<open>uuid\<close>.\<close>

fun creates :: "string \<Rightarrow> call \<Rightarrow> bool" where
  "creates uuid (Call_AddUser u) = (User_Ldap u = uuid)"
| "creates uuid (Call_AddUserIdProvider p) = (UserIdProvider_UsernameFromIdp p = uuid)"
| "creates uuid c = False"

fun is_creation :: "call \<Rightarrow> bool" where
  "is_creation (Call_AddUser u) = True"
| "is_creation (Call_AddUserIdProvider p) = True"
| "is_creation c = False"

text \<open>The world in which a pass through the loop body, or its creation part, ends.\<close>

fun step_world :: "sync_step \<Rightarrow> world" where
  "step_world (Next existUsers failedUsers w) = w"
| "step_world (Stop r w) = w"

fun create_world :: "create_step \<Rightarrow> world" where
  "create_world (Created w) = w"
| "create_world (NotAffected w) = w"
| "create_world (Left r w) = w"

text \<open>A sync result handed back without an error.\<close>

fun clean_return :: "sync_result \<Rightarrow> bool" where
  "clean_return (Return (existUsers, failedUsers, None)) = True"
| "clean_return r = False"

text \<open>How many times the trace asks the store for the existing uuids.\<close>

definition queries :: "world \<Rightarrow> nat" where
  "queries w = length (filter is_GetExistUuids (trace w))"

text \<open>The world in which the loop of \<open>SyncLdapUsers\<close> starts.\<close>

definition start_world :: "string \<Rightarrow> string \<Rightarrow> world \<Rightarrow> world" where
  "start_world owner ldapId w =
     record_call (Call_GetLdap ldapId) (record_call (Call_getOrganization ''admin'' owner) w)"

section \<open>The login controller (package controllers)\<close>

subsection \<open>Data\<close>

text \<open>
  The structs below are declared outside the two source files; each record carries the
  fields that the modelled code reads or writes.  \<open>claims\<close> is the map that the source
  calls \<open>authData\<close>; a nil map is \<open>None\<close>.
\<close>

record Application =
  Application_Name :: string
  Application_Organization :: string
  Application_Tags :: "string list"
  Application_GrantTypes :: "string list"
  Application_EnableSigninSession :: bool

record Provider =
  Provider_Name :: string
  Provider_Category :: string
  Provider_Type :: string

type_synonym claims = "(string \<times> string) list"

record UserInfo =
  UserInfo_Id :: string
  UserInfo_Username :: string
  UserInfo_DisplayName :: string
  UserInfo_AdditionalInfo :: claims

record Subscription =
  Subscription_Name :: string
  Subscription_State :: string

record Pricing =
  Pricing_Name :: string

record Code =
  Code_Message :: string
  Code_Code :: string

record Token =
  Token_AccessToken :: string
  Token_RefreshToken :: string

record OAuthToken =
  OAuthToken_AccessToken :: string
  OAuthToken_Valid :: bool
  OAuthToken_IdToken :: string

record Session =
  Session_Owner :: string
  Session_Name :: string
  Session_Application :: string
  Session_SessionId :: "string list"

record AuthForm =
  AuthForm_Type :: string
  AuthForm_Username :: string
  AuthForm_Provider :: string
  AuthForm_ClientId :: string
  AuthForm_Application :: string
  AuthForm_RedirectUri :: string
  AuthForm_State :: string
  AuthForm_Code :: string
  AuthForm_Method :: string
  AuthForm_SamlRequest :: string
  AuthForm_SamlResponse :: string
  AuthForm_AutoSignin :: bool
  AuthForm_Passcode :: string
  AuthForm_MfaType :: string
  AuthForm_RecoveryCode :: string

text \<open>What the controller reads from the HTTP request besides the form.\<close>

record request =
  Input :: "string \<Rightarrow> string"
  Host :: string
  AcceptLanguage :: string
  SessionID :: string

text \<open>The values that the source puts into the \<open>Data\<close> and \<open>Data2\<close> fields of a response.\<close>

datatype data =
    DNil
  | DString string
  | DBool bool
  | DUserInfo UserInfo
  | DSubscription Subscription
  | DPricing Pricing
  | DStringMap "(string \<times> string) list"

record Response =
  Response_Status :: string
  Response_Msg :: string
  Response_Data :: data
  Response_Data2 :: data

text \<open>
  The controller answers through its helper methods, which are not in the source
  files; a \<open>reply\<close> is one call of such a helper with its arguments.  \<open>ServeJSON\<close> is
  the end of \<open>Login\<close>, which serves the response it was left with.
\<close>

datatype reply =
    ResponseOk "data list"
  | ResponseError string "data list"
  | ResponseInternalServerError string
  | ResponseUnprocessableEntity string
  | ResponseBadRequest string
  | ServeJSON "Response option"

text \<open>The calls, with their arguments, that issue something or change stored state.\<close>

datatype ctl_call =
    Ctl_GetOAuthCode "string list"
  | Ctl_GetTokenByUser string string string
  | Ctl_GetSamlResponse string string string
  | Ctl_GenerateCasToken string string
  | Ctl_AddSession Session
  | Ctl_ParseSamlResponse string
  | Ctl_GetToken string
  | Ctl_GetUserInfo string
  | Ctl_SetUserOAuthProperties "User option" string UserInfo
  | Ctl_LinkUserAccount "User option" string string
  | Ctl_Verify string string
  | Ctl_MfaRecover string string

text \<open>
  Modelled from the spec: the session slots of the request's server-side session
  (the signed-in user id, the MFA-pending marker, the forced-password-change marker, all
  keyed by user id and empty when unset), which the controller reads and writes through
  helpers that are not in the source files.  \<open>replies\<close> and \<open>calls\<close> record, in order,
  what the controller answered and which calls it made.
\<close>

record controller =
  SessionUsername :: string
  MfaUserSession :: string
  ChangePasswordUserSession :: string
  ExpireForSession :: bool
  replies :: "reply list"
  calls :: "ctl_call list"

definition respond :: "reply \<Rightarrow> controller \<Rightarrow> controller" where
  "respond r c = c\<lparr>replies := replies c @ [r]\<rparr>"

definition invoke :: "ctl_call \<Rightarrow> controller \<Rightarrow> controller" where
  "invoke k c = c\<lparr>calls := calls c @ [k]\<rparr>"

definition message :: "error \<Rightarrow> string" where
  "message err = (case err of Error m \<Rightarrow> m)"

subsection \<open>Collaborators\<close>

text \<open>
  Configuration and library functions: the translator \<open>c.T\<close>, the configured
  \<open>authState\<close>, the constants of package \<open>object\<close>, \<open>util.GetId\<close>,
  \<open>wrapErrorResponse\<close> and \<open>strings.EqualFold\<close>.
\<close>

record site =
  T :: "string \<Rightarrow> string"
  authState :: string
  SubStateActive :: string
  SubStatePending :: string
  NextChangePasswordForm :: string
  SigninWrongTimesLimit :: int
  util_GetId :: "string \<Rightarrow> string \<Rightarrow> string"
  wrapErrorResponse :: "error option \<Rightarrow> Response"
  EqualFold :: "string \<Rightarrow> string \<Rightarrow> bool"

text \<open>Lookups in package \<open>object\<close> and methods of its types.\<close>

record lookups =
  GetId :: "User \<Rightarrow> string"
  IsGlobalAdmin :: "User \<Rightarrow> bool"
  IsPasswordChangeRequired :: "User \<Rightarrow> bool"
  HasPromptPage :: "Application \<Rightarrow> bool"
  IsProviderVisible :: "Application \<Rightarrow> string \<Rightarrow> bool"
  IsGrantTypeValid :: "string \<Rightarrow> string list \<Rightarrow> bool"
  GetApplication :: "string \<Rightarrow> error + Application option"
  GetApplicationByClientId :: "string \<Rightarrow> error + Application option"
  GetOrganization :: "string \<Rightarrow> Organization option \<times> error option"
  GetProvider :: "string \<Rightarrow> error + Provider option"
  GetUser :: "string \<Rightarrow> error + User option"
  GetUserByField :: "string \<Rightarrow> string \<Rightarrow> string \<Rightarrow> error + User option"
  GetUserByFields :: "string \<Rightarrow> string \<Rightarrow> error + User option"
  CheckLoginPermission :: "string \<Rightarrow> Application \<Rightarrow> error + bool"
  GetSubscriptionsByUser :: "string \<Rightarrow> string \<Rightarrow> error + Subscription list"
  GetApplicationDefaultPricing :: "string \<Rightarrow> string \<Rightarrow> error + Pricing option"

text \<open>
  Calls in package \<open>object\<close> that issue an artifact or change stored state, and the
  MFA utility: \<open>GetMfaUtil\<close> answers with the \<open>Verify\<close> method of the utility, or
  \<open>None\<close> for a nil utility.
\<close>

record issuers =
  getSid :: "string \<Rightarrow> string"
  GetOAuthCode :: "string list \<Rightarrow> error + Code"
  GetTokenByUser :: "Application \<Rightarrow> User \<Rightarrow> string \<Rightarrow> string \<Rightarrow> string \<Rightarrow> Token option"
  GetSamlResponse :: "Application \<Rightarrow> User \<Rightarrow> string \<Rightarrow> string \<Rightarrow> error + (string \<times> string \<times> string)"
  GenerateCasToken :: "string \<Rightarrow> string \<Rightarrow> error + string"
  AddSession :: "Session \<Rightarrow> error option"
  SetUserOAuthProperties :: "Organization option \<Rightarrow> User option \<Rightarrow> string \<Rightarrow> UserInfo \<Rightarrow> error option"
  LinkUserAccount :: "User option \<Rightarrow> string \<Rightarrow> string \<Rightarrow> error + bool"
  GetMfaUtil :: "string \<Rightarrow> User \<Rightarrow> (string \<Rightarrow> error option) option"
  MfaRecover :: "User \<Rightarrow> string \<Rightarrow> error option"

text \<open>
  The identity provider: \<open>GetIdProvider\<close> tells whether \<open>idp.GetIdProvider\<close> is not
  nil, \<open>ParseSigned\<close> answers with the parsed token or \<open>None\<close> for nil, and
  \<open>UnsafeClaims\<close> with the claims of a parsed token.
\<close>

record identity_provider =
  ParseSamlResponse :: "string \<Rightarrow> Provider \<Rightarrow> string \<Rightarrow> error + (UserInfo \<times> claims option)"
  GetIdProvider :: "Provider \<Rightarrow> string \<Rightarrow> bool"
  GetProviderHttpClient :: "Provider \<Rightarrow> error option"
  GetToken :: "Provider \<Rightarrow> string \<Rightarrow> error + OAuthToken option"
  GetUserInfo :: "Provider \<Rightarrow> OAuthToken option \<Rightarrow> error + UserInfo"
  ParseSigned :: "string \<Rightarrow> string option"
  UnsafeClaims :: "string \<Rightarrow> error + claims"

record cenv =
  site :: site
  lookups :: lookups
  issuers :: issuers
  idp :: identity_provider

subsection \<open>Formatting\<close>

text \<open>
  \<open>fmt.Sprintf\<close> for string operands.  The format strings of the modelled code use
  the verbs \<open>%s\<close> and \<open>%%\<close> only; \<open>%v\<close> prints a string as \<open>%s\<close> does.  As in
  Go, a missing operand prints \<open>%!s(MISSING)\<close>, operands left over print as
  \<open>%!(EXTRA string=a, string=b)\<close>, a lone \<open>%\<close> at the end prints \<open>%!(NOVERB)\<close>, and
  a verb \<open>d\<close> that does not take a string prints \<open>%!d(string=a)\<close>.  Flags, widths and
  the verbs \<open>%q\<close>, \<open>%x\<close>, \<open>%X\<close> and \<open>%T\<close> are outside this model.
\<close>

definition Sprintf_extra :: "string list \<Rightarrow> string" where
  "Sprintf_extra args =
     (if args = [] then []
      else ''%!(EXTRA '' @ Join (map (\<lambda>a. ''string='' @ a) args) '', '' @ '')'')"

fun Sprintf :: "string \<Rightarrow> string list \<Rightarrow> string" where
  "Sprintf [] args = Sprintf_extra args"
| "Sprintf [c] args = (if c = CHR ''%'' then ''%!(NOVERB)'' else [c]) @ Sprintf_extra args"
| "Sprintf (c # v # fmt) args =
     (if c \<noteq> CHR ''%'' then c # Sprintf (v # fmt) args
      else if v = CHR ''%'' then CHR ''%'' # Sprintf fmt args
      else (case args of
              [] \<Rightarrow> ''%!'' @ [v] @ ''(MISSING)'' @ Sprintf fmt []
            | a # as \<Rightarrow>
                (if v = CHR ''s'' \<or> v = CHR ''v'' then a
                 else ''%!'' @ [v] @ ''(string='' @ a @ '')'') @ Sprintf fmt as))"

subsection \<open>HandleLoggedIn\<close>

text \<open>
  Modelled from the spec: the response-type constants are declared outside the source
  files; the spec names them \<open>login\<close>, \<open>code\<close>, \<open>token\<close>, \<open>id_token\<close>, \<open>saml\<close> and
  \<open>cas\<close>.
\<close>

definition ResponseTypeLogin :: string where "ResponseTypeLogin = ''login''"
definition ResponseTypeCode :: string where "ResponseTypeCode = ''code''"
definition ResponseTypeToken :: string where "ResponseTypeToken = ''token''"
definition ResponseTypeIdToken :: string where "ResponseTypeIdToken = ''id_token''"
definition ResponseTypeSaml :: string where "ResponseTypeSaml = ''saml''"
definition ResponseTypeCas :: string where "ResponseTypeCas = ''cas''"

definition codeToResponse :: "Code \<Rightarrow> Response" where
  "codeToResponse code =
     (if Code_Code code = []
      then \<lparr>Response_Status = ''error'', Response_Msg = Code_Message code,
            Response_Data = DString (Code_Code code), Response_Data2 = DNil\<rparr>
      else \<lparr>Response_Status = ''ok'', Response_Msg = [],
            Response_Data = DString (Code_Code code), Response_Data2 = DNil\<rparr>)"

definition tokenToResponse :: "Token \<Rightarrow> Response" where
  "tokenToResponse token =
     (if Token_AccessToken token = []
      then \<lparr>Response_Status = ''error'', Response_Msg = ''fail to get accessToken'',
            Response_Data = DString (Token_AccessToken token), Response_Data2 = DNil\<rparr>
      else \<lparr>Response_Status = ''ok'', Response_Msg = [],
            Response_Data = DString (Token_AccessToken token),
            Response_Data2 = DString (Token_RefreshToken token)\<rparr>)"

text \<open>
  The gates before the completion: the invited user, the login permission and the tag
  of the user.  \<open>Some r\<close> is the reply with which the function returns.
\<close>

definition HandleLoggedIn_permission :: "cenv \<Rightarrow> Application \<Rightarrow> User \<Rightarrow> reply option" where
  "HandleLoggedIn_permission E application user =
     (let userId = GetId (lookups E) user in
      if User_Type user = ''invited-user''
      then Some (ResponseError (T (site E) ''auth:Unauthorized operation'') [])
      else
        (case CheckLoginPermission (lookups E) userId application of
           Inl err \<Rightarrow> Some (ResponseError (message err) [DNil])
         | Inr allowed \<Rightarrow>
             if \<not> allowed then Some (ResponseError (T (site E) ''auth:Unauthorized operation'') [])
             else if \<not> IsGlobalAdmin (lookups E) user \<and> \<not> User_IsAdmin user
                     \<and> length (Application_Tags application) > 0
                     \<and> User_Tag user \<notin> set (Application_Tags application)
             then Some (ResponseError
                    (Sprintf (T (site E) (''auth:User'' @ [CHR 0x27] @
                        ''s tag: %s is not listed in the application'' @ [CHR 0x27] @ ''s tags''))
                       [User_Tag user]) [])
             else None))"

text \<open>The gate for a paid user: an active subscription, else a pending one, else the default pricing.\<close>

definition HandleLoggedIn_subscription :: "cenv \<Rightarrow> Application \<Rightarrow> User \<Rightarrow> reply option" where
  "HandleLoggedIn_subscription E application user =
     (if User_Type user = ''paid-user'' then
        (case GetSubscriptionsByUser (lookups E) (User_Owner user) (User_Name user) of
           Inl err \<Rightarrow> Some (ResponseInternalServerError ''internal server error'')
         | Inr subscriptions \<Rightarrow>
             if \<exists>subscription\<in>set subscriptions.
                  Subscription_State subscription = SubStateActive (site E)
             then None
             else
               (case find (\<lambda>sub. Subscription_State sub = SubStatePending (site E)) subscriptions of
                  Some sub \<Rightarrow> Some (ResponseOk [DString ''BuyPlanResult'', DSubscription sub])
                | None \<Rightarrow>
                    (case GetApplicationDefaultPricing (lookups E)
                            (Application_Organization application) (Application_Name application) of
                       Inl err \<Rightarrow> Some (ResponseInternalServerError ''internal server error'')
                     | Inr None \<Rightarrow> Some (ResponseError
                         (Sprintf (T (site E) ''auth:paid-user %s does not have active or pending subscription and the application: %s does not have default pricing'')
                            [User_Name user, Application_Name application]) [])
                     | Inr (Some pricing) \<Rightarrow> Some (ResponseOk [DString ''SelectPlan'', DPricing pricing]))))
      else None)"

text \<open>\<open>c.SetSessionUsername(userId)\<close> when the application keeps a sign-in session or has a prompt page.\<close>

definition keep_signed_in :: "cenv \<Rightarrow> Application \<Rightarrow> string \<Rightarrow> controller \<Rightarrow> controller" where
  "keep_signed_in E application userId c =
     (if Application_EnableSigninSession application \<or> HasPromptPage (lookups E) application
      then c\<lparr>SessionUsername := userId\<rparr> else c)"

text \<open>
  The completion by response type.  \<open>Return None\<close> is a return after an error reply,
  \<open>Return (Some resp)\<close> goes on to the end of the function with \<open>resp\<close>, and a nil token
  from \<open>GetTokenByUser\<close> makes \<open>tokenToResponse\<close> panic.
\<close>

definition HandleLoggedIn_complete ::
    "cenv \<Rightarrow> request \<Rightarrow> Application \<Rightarrow> User \<Rightarrow> AuthForm \<Rightarrow> controller \<Rightarrow> Response option outcome \<times> controller" where
  "HandleLoggedIn_complete E rq application user form c =
     (let userId = GetId (lookups E) user; sid = getSid (issuers E) userId in
      if AuthForm_Type form = ResponseTypeLogin then
        (Return (Some \<lparr>Response_Status = ''ok'', Response_Msg = [], Response_Data = DString userId,
                        Response_Data2 = DNil\<rparr>),
         c\<lparr>SessionUsername := userId\<rparr>)
      else if AuthForm_Type form = ResponseTypeCode then
        (let clientId = Input rq ''clientId'';
             responseType = Input rq ''responseType'';
             redirectUri = Input rq ''redirectUri'';
             scope = Input rq ''scope'';
             state = Input rq ''state'';
             nonce = Input rq ''nonce'';
             challengeMethod = Input rq ''code_challenge_method'';
             codeChallenge = Input rq ''code_challenge''
         in if challengeMethod \<noteq> ''S256'' \<and> challengeMethod \<noteq> ''null'' \<and> challengeMethod \<noteq> []
            then (Return None,
                  respond (ResponseError (T (site E) ''auth:Challenge method should be S256'') []) c)
            else
              (let args = [userId, clientId, responseType, redirectUri, scope, state, nonce,
                           codeChallenge, Host rq, sid, AcceptLanguage rq];
                   c1 = invoke (Ctl_GetOAuthCode args) c
               in case GetOAuthCode (issuers E) args of
                    Inl err \<Rightarrow> (Return None, respond (ResponseError (message err) [DNil]) c1)
                  | Inr code \<Rightarrow>
                      (Return (Some (codeToResponse code)), keep_signed_in E application userId c1)))
      else if AuthForm_Type form = ResponseTypeToken \<or> AuthForm_Type form = ResponseTypeIdToken then
        (if \<not> IsGrantTypeValid (lookups E) (AuthForm_Type form) (Application_GrantTypes application)
         then (Return (Some \<lparr>Response_Status = ''error'',
                   Response_Msg = ''error: grant_type: '' @ AuthForm_Type form @
                                  '' is not supported in this application'',
                   Response_Data = DString [], Response_Data2 = DNil\<rparr>), c)
         else
           (let scope = Input rq ''scope'';
                c1 = invoke (Ctl_GetTokenByUser (Application_Name application) userId scope) c
            in case GetTokenByUser (issuers E) application user scope (Host rq) sid of
                 None \<Rightarrow> (Panic, c1)
               | Some token \<Rightarrow> (Return (Some (tokenToResponse token)), c1)))
      else if AuthForm_Type form = ResponseTypeSaml then
        (let c1 = invoke (Ctl_GetSamlResponse (Application_Name application) userId
                            (AuthForm_SamlRequest form)) c
         in case GetSamlResponse (issuers E) application user (AuthForm_SamlRequest form) (Host rq) of
              Inl err \<Rightarrow> (Return None, respond (ResponseError (message err) [DNil]) c1)
            | Inr (res, redirectUrl, method) \<Rightarrow>
                (Return (Some \<lparr>Response_Status = ''ok'', Response_Msg = [], Response_Data = DString res,
                    Response_Data2 = DStringMap [(''redirectUrl'', redirectUrl), (''method'', method)]\<rparr>),
                 keep_signed_in E application userId c1))
      else if AuthForm_Type form = ResponseTypeCas then
        (let service = Input rq ''service'';
             resp = wrapErrorResponse (site E) None
         in if service \<noteq> [] then
              (let c1 = invoke (Ctl_GenerateCasToken userId service) c
               in case GenerateCasToken (issuers E) userId service of
                    Inl err \<Rightarrow> (Return (Some (wrapErrorResponse (site E) (Some err))),
                                keep_signed_in E application userId c1)
                  | Inr st \<Rightarrow> (Return (Some (resp\<lparr>Response_Data := DString st\<rparr>)),
                               keep_signed_in E application userId c1))
            else (Return (Some resp), keep_signed_in E application userId c))
      else (Return (Some (wrapErrorResponse (site E)
                (Some (Error (''unknown response type: '' @ AuthForm_Type form))))), c))"

text \<open>
  The end of the function: the session expiry and the append-only session entry.  The
  bare \<open>return\<close> after a failed \<open>AddSession\<close> hands back the named result \<open>resp\<close>
  as it stands.
\<close>

definition HandleLoggedIn_finish ::
    "cenv \<Rightarrow> request \<Rightarrow> Application \<Rightarrow> User \<Rightarrow> AuthForm \<Rightarrow> Response \<Rightarrow> controller
      \<Rightarrow> Response option outcome \<times> controller" where
  "HandleLoggedIn_finish E rq application user form resp c =
     (let c1 = (if Response_Status resp = ''ok'' \<and> \<not> AuthForm_AutoSignin form
                then c\<lparr>ExpireForSession := True\<rparr> else c)
      in if Response_Status resp = ''ok'' then
           (let session = \<lparr>Session_Owner = User_Owner user, Session_Name = User_Name user,
                            Session_Application = Application_Name application,
                            Session_SessionId = [SessionID rq]\<rparr>;
                c2 = invoke (Ctl_AddSession session) c1
            in case AddSession (issuers E) session of
                 Some err \<Rightarrow> (Return (Some resp), respond (ResponseError (message err) [DNil]) c2)
               | None \<Rightarrow> (Return (Some resp), c2))
         else (Return (Some resp), c1))"

definition HandleLoggedIn ::
    "cenv \<Rightarrow> request \<Rightarrow> Application \<Rightarrow> User \<Rightarrow> AuthForm \<Rightarrow> controller \<Rightarrow> Response option outcome \<times> controller" where
  "HandleLoggedIn E rq application user form c =
     (case HandleLoggedIn_permission E application user of
        Some r \<Rightarrow> (Return None, respond r c)
      | None \<Rightarrow>
          (case HandleLoggedIn_subscription E application user of
             Some r \<Rightarrow> (Return None, respond r c)
           | None \<Rightarrow>
               (case HandleLoggedIn_complete E rq application user form c of
                  (Panic, c1) \<Rightarrow> (Panic, c1)
                | (Return None, c1) \<Rightarrow> (Return None, c1)
                | (Return (Some resp), c1) \<Rightarrow> HandleLoggedIn_finish E rq application user form resp c1)))"

subsection \<open>Login: the branches\<close>

text \<open>
  \<open>Login\<close> chooses its branch by the shape of the request, in this order: a username,
  a provider name, an MFA-pending session, a pending forced password change, and else
  the signed-in session.
\<close>

datatype login_branch =
    Branch_Username
  | Branch_Provider
  | Branch_Mfa
  | Branch_ChangePassword
  | Branch_Session

definition Login_branch :: "AuthForm \<Rightarrow> controller \<Rightarrow> login_branch" where
  "Login_branch authForm c =
     (if AuthForm_Username authForm \<noteq> [] then Branch_Username
      else if AuthForm_Provider authForm \<noteq> [] then Branch_Provider
      else if MfaUserSession c \<noteq> [] then Branch_Mfa
      else if ChangePasswordUserSession c \<noteq> [] then Branch_ChangePassword
      else Branch_Session)"

subsection \<open>Login with a provider\<close>

definition isProxyProviderType :: "cenv \<Rightarrow> string \<Rightarrow> bool" where
  "isProxyProviderType E providerType =
     (\<exists>v\<in>set [''GitHub'', ''Google'', ''Facebook'', ''LinkedIn'', ''Steam'', ''Line'', ''Amazon'',
               ''Instagram'', ''TikTok'', ''Twitter'', ''Uber'', ''Yahoo''].
        EqualFold (site E) v providerType)"

definition setHttpClient :: "cenv \<Rightarrow> Provider \<Rightarrow> error option" where
  "setHttpClient E provider =
     (if isProxyProviderType E (Provider_Type provider) then None
      else GetProviderHttpClient (idp E) provider)"

definition zero_UserInfo :: UserInfo where
  "zero_UserInfo = \<lparr>UserInfo_Id = [], UserInfo_Username = [], UserInfo_DisplayName = [],
     UserInfo_AdditionalInfo = []\<rparr>"

text \<open>
  Where the provider branch stands once the external identity is known, or the
  outcome with which \<open>Login\<close> returned before that.
\<close>

datatype identity_stage =
    Identified Application "Organization option" Provider UserInfo "claims option" controller
  | Answered "unit outcome" controller

text \<open>
  The unverified claims of the access token and, for an OpenID provider with additional
  user information, of the id token.  \<open>maps.Copy\<close> into the nil map panics, and so does
  the method call on a nil parsed id token.
\<close>

definition Login_provider_claims ::
    "cenv \<Rightarrow> Application \<Rightarrow> Organization option \<Rightarrow> Provider \<Rightarrow> OAuthToken option \<Rightarrow> UserInfo
      \<Rightarrow> controller \<Rightarrow> identity_stage" where
  "Login_provider_claims E application organization provider token userInfo c =
     (let accessToken = (case token of None \<Rightarrow> [] | Some t \<Rightarrow> OAuthToken_AccessToken t);
          idToken = (case token of None \<Rightarrow> [] | Some t \<Rightarrow> OAuthToken_IdToken t);
          decoded = (case ParseSigned (idp E) accessToken of
                       None \<Rightarrow> Inr None
                     | Some jwtToken \<Rightarrow>
                         (case UnsafeClaims (idp E) jwtToken of
                            Inl err \<Rightarrow> Inl err
                          | Inr cl \<Rightarrow> Inr (Some cl)))
      in case decoded of
           Inl err \<Rightarrow> Answered (Return ()) (respond (ResponseError (T (site E) ''auth:Invalid token'') []) c)
         | Inr authData \<Rightarrow>
             if Provider_Type provider = ''OpenID'' \<and> length (UserInfo_AdditionalInfo userInfo) \<noteq> 0 then
               (case authData of
                  None \<Rightarrow> Answered Panic c
                | Some cl \<Rightarrow>
                    (case ParseSigned (idp E) idToken of
                       None \<Rightarrow> Answered Panic c
                     | Some jwtIdToken \<Rightarrow>
                         (case UnsafeClaims (idp E) jwtIdToken of
                            Inl err \<Rightarrow> Answered (Return ())
                              (respond (ResponseError (T (site E) ''auth:Invalid id token'') []) c)
                          | Inr idClaims \<Rightarrow>
                              Identified application organization provider userInfo
                                (Some (cl @ UserInfo_AdditionalInfo userInfo @ idClaims)) c)))
             else Identified application organization provider userInfo authData c)"

text \<open>
  The OAuth and Web3 categories: the identity provider client, the check of the
  \<open>state\<close> parameter, and only then the exchange of the code for a token and the fetch of
  the user information.
\<close>

definition Login_provider_oauth ::
    "cenv \<Rightarrow> AuthForm \<Rightarrow> Application \<Rightarrow> Organization option \<Rightarrow> Provider \<Rightarrow> controller \<Rightarrow> identity_stage" where
  "Login_provider_oauth E authForm application organization provider c =
     (if \<not> GetIdProvider (idp E) provider (AuthForm_RedirectUri authForm) then
        Answered (Return ()) (respond (ResponseError
          (Sprintf (T (site E) ''storage:The provider type: %s is not supported'') [Provider_Type provider]) []) c)
      else
        (case setHttpClient E provider of
           Some err \<Rightarrow> Answered (Return ()) (respond (ResponseInternalServerError ''internal server error'') c)
         | None \<Rightarrow>
             if AuthForm_State authForm \<noteq> authState (site E)
                \<and> AuthForm_State authForm \<noteq> Application_Name application
             then Answered (Return ()) (respond (ResponseError
                    (Sprintf (T (site E) ''auth:State expected: %s, but got: %s'')
                       [authState (site E), AuthForm_State authForm]) []) c)
             else
               (let c1 = invoke (Ctl_GetToken (AuthForm_Code authForm)) c in
                case GetToken (idp E) provider (AuthForm_Code authForm) of
                  Inl err \<Rightarrow> Answered (Return ())
                    (respond (ResponseInternalServerError ''internal server error'') c1)
                | Inr token \<Rightarrow>
                    if \<not> (case token of None \<Rightarrow> False | Some t \<Rightarrow> OAuthToken_Valid t) then
                      Answered (Return ()) (respond (ResponseError (T (site E) ''auth:Invalid token'') []) c1)
                    else
                      (let c2 = invoke (Ctl_GetUserInfo (Provider_Name provider)) c1 in
                       case GetUserInfo (idp E) provider token of
                         Inl err \<Rightarrow> Answered (Return ()) (respond (ResponseError
                           (Sprintf (T (site E) ''auth:Failed to login in: %s'') [message err]) []) c2)
                       | Inr userInfo \<Rightarrow>
                           if Provider_Category provider = ''OAuth''
                           then Login_provider_claims E application organization provider token userInfo c2
                           else Identified application organization provider userInfo None c2))))"

text \<open>
  The provider branch up to the external identity: the application, the organization
  (whose lookup error is answered without a return), the provider, its visibility for
  the application, and the identity by category.  A nil application makes
  \<open>err.Error()\<close> panic on the nil error, a nil provider makes \<open>provider.Name\<close> panic.
\<close>

definition Login_provider_identity :: "cenv \<Rightarrow> request \<Rightarrow> AuthForm \<Rightarrow> controller \<Rightarrow> identity_stage" where
  "Login_provider_identity E rq authForm c =
     (case (if AuthForm_ClientId authForm \<noteq> []
            then GetApplicationByClientId (lookups E) (AuthForm_ClientId authForm)
            else GetApplication (lookups E) (''admin/'' @ AuthForm_Application authForm)) of
        Inl err \<Rightarrow> Answered (Return ()) (respond (ResponseInternalServerError ''internal server error'') c)
      | Inr None \<Rightarrow> Answered Panic c
      | Inr (Some application) \<Rightarrow>
          (let (organization, oerr) = GetOrganization (lookups E)
                 (util_GetId (site E) ''admin'' (Application_Organization application));
               c1 = (case oerr of
                       Some err \<Rightarrow> respond (ResponseError (T (site E) (message err)) []) c
                     | None \<Rightarrow> c)
           in case GetProvider (lookups E) (util_GetId (site E) ''admin'' (AuthForm_Provider authForm)) of
                Inl err \<Rightarrow> Answered (Return ())
                  (respond (ResponseInternalServerError ''internal server error'') c1)
              | Inr None \<Rightarrow> Answered Panic c1
              | Inr (Some provider) \<Rightarrow>
                  if \<not> IsProviderVisible (lookups E) application (Provider_Name provider) then
                    Answered (Return ()) (respond (ResponseError
                      (Sprintf (T (site E) ''auth:The provider: %s is not enabled for the application'')
                         [Provider_Name provider]) []) c1)
                  else if Provider_Category provider = ''SAML'' then
                    (let c2 = invoke (Ctl_ParseSamlResponse (AuthForm_SamlResponse authForm)) c1 in
                     case ParseSamlResponse (idp E) (AuthForm_SamlResponse authForm) provider (Host rq) of
                       Inl err \<Rightarrow> Answered (Return ())
                         (respond (ResponseInternalServerError ''internal server error'') c2)
                     | Inr (userInfo, authData) \<Rightarrow>
                         Identified application organization provider userInfo authData c2)
                  else if Provider_Category provider = ''OAuth'' \<or> Provider_Category provider = ''Web3'' then
                    Login_provider_oauth E authForm application organization provider c1
                  else Identified application organization provider zero_UserInfo None c1))"

text \<open>
  The branch for a method other than \<open>signup\<close>: the external identity is linked to the
  user of the signed-in session, unless a local user is already linked to it.
\<close>

definition already_linked_format :: string where
  "already_linked_format =
     ''auth:The account for provider: %s and username: %s (%s) is already linked to another account: %s (%s)''"

definition Login_provider_link ::
    "cenv \<Rightarrow> Application \<Rightarrow> Organization option \<Rightarrow> Provider \<Rightarrow> UserInfo \<Rightarrow> controller
      \<Rightarrow> unit outcome \<times> controller" where
  "Login_provider_link E application organization provider userInfo c =
     (let userId = SessionUsername c in
      if userId = [] then
        (Return (), respond (ResponseError
           (Sprintf (T (site E) ''general:Invalid username or password/code'')
              [util_GetId (site E) (Application_Organization application) (UserInfo_Id userInfo)])
           [DUserInfo userInfo]) c)
      else
        (case GetUserByField (lookups E) (Application_Organization application)
                (Provider_Type provider) (UserInfo_Id userInfo) of
           Inl err \<Rightarrow> (Return (), respond (ResponseInternalServerError ''internal server error'') c)
         | Inr (Some oldUser) \<Rightarrow>
             (Return (), respond (ResponseError
                (Sprintf (T (site E) already_linked_format)
                   [Provider_Type provider, UserInfo_Username userInfo, UserInfo_DisplayName userInfo,
                    User_Name oldUser, User_DisplayName oldUser]) []) c)
         | Inr None \<Rightarrow>
             (case GetUser (lookups E) userId of
                Inl err \<Rightarrow> (Return (), respond (ResponseInternalServerError ''internal server error'') c)
              | Inr user \<Rightarrow>
                  (let c1 = invoke (Ctl_SetUserOAuthProperties user (Provider_Type provider) userInfo) c in
                   case SetUserOAuthProperties (issuers E) organization user (Provider_Type provider) userInfo of
                     Some err \<Rightarrow>
                       (Return (), respond (ResponseInternalServerError ''internal server error'') c1)
                   | None \<Rightarrow>
                       (let c2 = invoke (Ctl_LinkUserAccount user (Provider_Type provider)
                                           (UserInfo_Id userInfo)) c1 in
                        case LinkUserAccount (issuers E) user (Provider_Type provider) (UserInfo_Id userInfo) of
                          Inl err \<Rightarrow>
                            (Return (), respond (ResponseInternalServerError ''internal server error'') c2)
                        | Inr isLinked \<Rightarrow>
                            (Return (), respond (ServeJSON (Some
                               (if isLinked
                                then \<lparr>Response_Status = ''ok'', Response_Msg = [],
                                      Response_Data = DBool isLinked, Response_Data2 = DNil\<rparr>
                                else \<lparr>Response_Status = ''error'',
                                      Response_Msg = ''Failed to link user account'',
                                      Response_Data = DBool isLinked, Response_Data2 = DNil\<rparr>))) c2))))))"

text \<open>The provider branch of \<open>Login\<close> for a request whose method is not \<open>signup\<close>.\<close>

definition Login_provider_signin :: "cenv \<Rightarrow> request \<Rightarrow> AuthForm \<Rightarrow> controller \<Rightarrow> unit outcome \<times> controller" where
  "Login_provider_signin E rq authForm c =
     (case Login_provider_identity E rq authForm c of
        Answered r c1 \<Rightarrow> (r, c1)
      | Identified application organization provider userInfo authData c1 \<Rightarrow>
          Login_provider_link E application organization provider userInfo c1)"

subsection \<open>Login in the MFA-pending state\<close>

text \<open>
  The second factor: a passcode checked by the MFA utility of the requested type, or a
  recovery code.  \<open>Some r\<close> is the reply with which \<open>Login\<close> returns.
\<close>

definition Login_mfa_factor :: "cenv \<Rightarrow> AuthForm \<Rightarrow> User \<Rightarrow> controller \<Rightarrow> reply option \<times> controller" where
  "Login_mfa_factor E authForm user c =
     (if AuthForm_Passcode authForm \<noteq> [] then
        (case GetMfaUtil (issuers E) (AuthForm_MfaType authForm) user of
           None \<Rightarrow> (Some (ResponseError ''Invalid multi-factor authentication type'' []), c)
         | Some Verify \<Rightarrow>
             (let c1 = invoke (Ctl_Verify (AuthForm_MfaType authForm) (AuthForm_Passcode authForm)) c in
              case Verify (AuthForm_Passcode authForm) of
                Some err \<Rightarrow> (Some (ResponseUnprocessableEntity ''OTP was wrong''), c1)
              | None \<Rightarrow> (None, c1)))
      else if AuthForm_RecoveryCode authForm \<noteq> [] then
        (let c1 = invoke (Ctl_MfaRecover (User_Name user) (AuthForm_RecoveryCode authForm)) c in
         case MfaRecover (issuers E) user (AuthForm_RecoveryCode authForm) of
           Some err \<Rightarrow> (Some (ResponseInternalServerError ''internal server error''), c1)
         | None \<Rightarrow> (None, c1))
      else (Some (ResponseError ''missing passcode or recovery code'' []), c))"

text \<open>
  After the second factor: the application, the forced password change, and the
  completion by \<open>HandleLoggedIn\<close>, after which the MFA-pending marker is cleared and
  the response is served.
\<close>

definition Login_mfa_complete :: "cenv \<Rightarrow> request \<Rightarrow> AuthForm \<Rightarrow> User \<Rightarrow> controller \<Rightarrow> unit outcome \<times> controller" where
  "Login_mfa_complete E rq authForm user c =
     (case GetApplication (lookups E) (''admin/'' @ AuthForm_Application authForm) of
        Inl err \<Rightarrow> (Return (), respond (ResponseInternalServerError ''internal server error'') c)
      | Inr None \<Rightarrow>
          (Return (), respond (ResponseError
             (Sprintf (T (site E) ''auth:The application: %s does not exist'')
                [AuthForm_Application authForm]) []) c)
      | Inr (Some application) \<Rightarrow>
          if IsPasswordChangeRequired (lookups E) user then
            (Return (), respond (ResponseOk [DString (NextChangePasswordForm (site E))])
               (c\<lparr>ChangePasswordUserSession := GetId (lookups E) user, MfaUserSession := []\<rparr>))
          else
            (case HandleLoggedIn E rq application user authForm c of
               (Panic, c1) \<Rightarrow> (Panic, c1)
             | (Return resp, c1) \<Rightarrow>
                 (Return (), respond (ServeJSON resp) (c1\<lparr>MfaUserSession := []\<rparr>))))"

text \<open>The branch of \<open>Login\<close> for a session with the MFA-pending marker.\<close>

definition Login_mfa :: "cenv \<Rightarrow> request \<Rightarrow> AuthForm \<Rightarrow> controller \<Rightarrow> unit outcome \<times> controller" where
  "Login_mfa E rq authForm c =
     (case GetUser (lookups E) (MfaUserSession c) of
        Inl err \<Rightarrow> (Return (), respond (ResponseInternalServerError ''internal server error'') c)
      | Inr None \<Rightarrow> (Return (), respond (ResponseError ''expired user session'' []) c)
      | Inr (Some user) \<Rightarrow>
          (case Login_mfa_factor E authForm user c of
             (Some r, c1) \<Rightarrow> (Return (), respond r c1)
           | (None, c1) \<Rightarrow> Login_mfa_complete E rq authForm user c1))"

subsection \<open>GetCaptchaStatus\<close>

definition GetCaptchaStatus :: "cenv \<Rightarrow> request \<Rightarrow> controller \<Rightarrow> controller" where
  "GetCaptchaStatus E rq c =
     (let organization = Input rq ''organization'';
          userId = Input rq ''user_id''
      in case GetUserByFields (lookups E) organization userId of
           Inl err \<Rightarrow> respond (ResponseInternalServerError ''internal server error'') c
         | Inr user \<Rightarrow>
             (let captchaEnabled =
                    (case user of
                       None \<Rightarrow> False
                     | Some u \<Rightarrow> User_SigninWrongTimes u \<ge> SigninWrongTimesLimit (site E))
              in respond (ResponseOk [DBool captchaEnabled]) c))"

text \<open>What a run added to the replies and to the calls of the controller.\<close>

definition new_replies :: "controller \<Rightarrow> controller \<Rightarrow> reply list" where
  "new_replies c c' = drop (length (replies c)) (replies c')"

definition new_ctl_calls :: "controller \<Rightarrow> controller \<Rightarrow> ctl_call list" where
  "new_ctl_calls c c' = drop (length (calls c)) (calls c')"

fun is_GetOAuthCode :: "ctl_call \<Rightarrow> bool" where
  "is_GetOAuthCode (Ctl_GetOAuthCode args) = True"
| "is_GetOAuthCode k = False"

text \<open>A reply that reports an error to the caller.\<close>

fun is_error_reply :: "reply \<Rightarrow> bool" where
  "is_error_reply (ResponseError msg d) = True"
| "is_error_reply (ResponseInternalServerError msg) = True"
| "is_error_reply (ResponseUnprocessableEntity msg) = True"
| "is_error_reply (ResponseBadRequest msg) = True"
| "is_error_reply r = False"

fun stage_controller :: "identity_stage \<Rightarrow> controller" where
  "stage_controller (Identified application organization provider userInfo authData c) = c"
| "stage_controller (Answered r c) = c"


text \<open>
  Two controllers with the same session slots, and a controller with replies and calls
  put in front of its own.
\<close>

definition same_session :: "controller \<Rightarrow> controller \<Rightarrow> bool" where
  "same_session c d \<longleftrightarrow>
     SessionUsername c = SessionUsername d \<and> MfaUserSession c = MfaUserSession d \<and>
     ChangePasswordUserSession c = ChangePasswordUserSession d \<and>
     ExpireForSession c = ExpireForSession d"

definition relog :: "reply list \<Rightarrow> ctl_call list \<Rightarrow> controller \<Rightarrow> controller" where
  "relog R K c = c\<lparr>replies := R @ replies c, calls := K @ calls c\<rparr>"

section \<open>Concrete inputs\<close>

text \<open>
  A world in which every collaborator answers without error: the directory
  configuration has role mapping switched off, \<open>AddUser\<close> stores every user and gives it
  an id, no directory server is configured.
\<close>

definition example_ldap :: "string \<Rightarrow> bool \<Rightarrow> Ldap" where
  "example_ldap i roleMapping =
     \<lparr>Ldap_Id = i, Ldap_BaseDn = ''ou=people,dc=example,dc=com'',
      Ldap_Username = ''cn=admin,ou=it,dc=example,dc=com'',
      Ldap_EnableRoleMapping = roleMapping\<rparr>"

definition quiet_env :: env where
  "quiet_env =
     \<lparr>orm_error = (\<lambda>w. None),
      ReturnAnyNotEmpty = (\<lambda>strs. case filter (\<lambda>str. str \<noteq> []) strs of [] \<Rightarrow> [] | str # rest \<Rightarrow> str),
      random = (\<lambda>w i. 10 + 17 * i),
      getOrganization = (\<lambda>w a owner. Inr (Some
         \<lparr>Organization_Name = owner, Organization_DefaultApplication = ''app-built-in'',
          Organization_DefaultAvatar = []\<rparr>)),
      GetLdap = (\<lambda>w i. (Some (example_ldap i False), None)),
      GetInitScore = (\<lambda>w org. Inr 0),
      GetCurrentTime = (\<lambda>w. ''2024-01-01T00:00:00Z''),
      AddUser = (\<lambda>w u. Inr (True, u\<lparr>User_Id := ''id-'' @ User_Name u\<rparr>)),
      AddUserIdProvider = (\<lambda>w p. (None, links w @ [p])),
      SyncRoles = (\<lambda>w l n ow. (None, roles w)),
      GetLdaps = (\<lambda>w org. Inr []),
      GetLdapConn = (\<lambda>w l. Inl (Error ''connection refused'')),
      GetLdapUsers = (\<lambda>w c l u. ([], Some (Error ''no result''))),
      CheckLdapUserPassword = (\<lambda>w u p l. ([], None))\<rparr>"

text \<open>The spec's example: a local user \<open>jdoe\<close> linked to another directory uuid.\<close>

definition jdoe_world :: world where
  "jdoe_world =
     \<lparr>users = [zero_User\<lparr>User_Owner := ''org'', User_Name := ''jdoe'', User_Ldap := ''uuid-old''\<rparr>],
      links = [], roles = [], trace = []\<rparr>"

definition jdoe_record :: LdapUser where
  "jdoe_record = zero_LdapUser\<lparr>LdapUser_Uid := ''jdoe'', LdapUser_UidNumber := ''1001'',
     LdapUser_Uuid := ''uuid-new''\<rparr>"

text \<open>
  Two directory servers: the first refuses the connection, the second connects and its
  search comes back empty.
\<close>

definition two_servers_env :: env where
  "two_servers_env = quiet_env\<lparr>
     GetLdaps := (\<lambda>w org. Inr [example_ldap ''ldap-a'' False, example_ldap ''ldap-b'' False]),
     GetLdapConn := (\<lambda>w l. if Ldap_Id l = ''ldap-a'' then Inl (Error ''connection refused'')
                            else Inr \<lparr>LdapConn_IsAD = False\<rparr>)\<rparr>"

text \<open>
  A local user \<open>jdoe\<close> that is already linked to the uuid of \<open>jdoe_record\<close>, a
  directory configuration with role mapping switched on, whose \<open>SyncRoles\<close> assigns the
  roles of the record to the user, and the record of \<open>jdoe\<close> with a role.
\<close>

definition linked_world :: world where
  "linked_world =
     \<lparr>users = [zero_User\<lparr>User_Owner := ''org'', User_Name := ''jdoe'', User_Ldap := ''uuid-new''\<rparr>],
      links = [], roles = [], trace = []\<rparr>"

definition role_mapping_env :: env where
  "role_mapping_env = quiet_env\<lparr>
     GetLdap := (\<lambda>w i. (Some (example_ldap i True), None)),
     SyncRoles := (\<lambda>w l name owner. (None, roles w @ [(owner @ ''/'' @ name, LdapUser_Roles l)]))\<rparr>"

definition staff_record :: LdapUser where
  "staff_record = jdoe_record\<lparr>LdapUser_Roles := [''staff'']\<rparr>"

text \<open>
  A local user \<open>jdoe_1001\<close> that is linked to another directory uuid: the name of
  \<open>jdoe_record\<close> collides with the composite only.
\<close>

definition composite_world :: world where
  "composite_world =
     \<lparr>users = [zero_User\<lparr>User_Owner := ''org'', User_Name := ''jdoe_1001'', User_Ldap := ''uuid-old''\<rparr>],
      links = [], roles = [], trace = []\<rparr>"

text \<open>Two directory records without a local account.\<close>

definition bob_record :: LdapUser where
  "bob_record = zero_LdapUser\<lparr>LdapUser_Uid := ''bob'', LdapUser_UidNumber := ''1002'',
     LdapUser_Uuid := ''uuid-bob''\<rparr>"

definition carol_record :: LdapUser where
  "carol_record = zero_LdapUser\<lparr>LdapUser_Uid := ''carol'', LdapUser_UidNumber := ''1003'',
     LdapUser_Uuid := ''uuid-carol''\<rparr>"

text \<open>\<open>AddUser\<close> fails with an error for every user.\<close>

definition add_error_env :: env where
  "add_error_env = quiet_env\<lparr>AddUser := (\<lambda>w u. Inl (Error ''insert failed''))\<rparr>"

text \<open>\<open>AddUser\<close> reports \<open>bob\<close> as not affected, without an error, and stores every other user.\<close>

definition bob_rejected_env :: env where
  "bob_rejected_env = quiet_env\<lparr>AddUser := (\<lambda>w u.
     if User_Ldap u = ''uuid-bob'' then Inr (False, u)
     else Inr (True, u\<lparr>User_Id := ''id-'' @ User_Name u\<rparr>))\<rparr>"

text \<open>The loop context that \<open>SyncLdapUsers\<close> builds for owner \<open>org\<close> and a batch of three.\<close>

definition batch_ctx :: sync_ctx where
  "batch_ctx =
     \<lparr>ctx_owner = ''org'', ctx_uuids = [''uuid-new'', ''uuid-bob'', ''uuid-carol''],
      ctx_organization = Some \<lparr>Organization_Name = ''org'',
         Organization_DefaultApplication = ''app-built-in'', Organization_DefaultAvatar = []\<rparr>,
      ctx_affiliation = ''example.com'', ctx_tag = ''it'', ctx_ldapId = ''ldap-a''\<rparr>"

subsection \<open>Concrete inputs for the controller\<close>

text \<open>
  The English translator: the text after the namespace prefix.  An application, its
  organization, a GitHub provider, the local users \<open>alice\<close> and \<open>bob\<close>; the external
  identity \<open>gh-42\<close> (\<open>octocat\<close>) is linked to \<open>bob\<close>, the identity \<open>gh-1\<close> to \<open>alice\<close>.  The MFA utility of type \<open>app\<close>
  accepts the passcode \<open>123456\<close> only.
\<close>

definition english :: "string \<Rightarrow> string" where
  "english s = drop 1 (dropWhile (\<lambda>ch. ch \<noteq> CHR '':'') s)"

definition demo_application :: Application where
  "demo_application =
     \<lparr>Application_Name = ''app-built-in'', Application_Organization = ''org'',
      Application_Tags = [], Application_GrantTypes = [''authorization_code''],
      Application_EnableSigninSession = False\<rparr>"

definition demo_provider :: Provider where
  "demo_provider = \<lparr>Provider_Name = ''provider_github'', Provider_Category = ''OAuth'',
     Provider_Type = ''GitHub''\<rparr>"

definition alice :: User where
  "alice = zero_User\<lparr>User_Owner := ''org'', User_Name := ''alice'', User_DisplayName := ''Alice'',
     User_Type := ''normal-user'', User_SigninWrongTimes := 5\<rparr>"

definition bob :: User where
  "bob = zero_User\<lparr>User_Owner := ''org'', User_Name := ''bob'', User_DisplayName := ''Bob'',
     User_Type := ''normal-user'', User_SigninWrongTimes := 4\<rparr>"

definition octocat :: UserInfo where
  "octocat = \<lparr>UserInfo_Id = ''gh-42'', UserInfo_Username = ''octocat'',
     UserInfo_DisplayName = ''The Octocat'', UserInfo_AdditionalInfo = []\<rparr>"

definition demo_site :: site where
  "demo_site =
     \<lparr>T = english, authState = ''casdoor'', SubStateActive = ''Active'', SubStatePending = ''Pending'',
      NextChangePasswordForm = ''NextChangePasswordForm'', SigninWrongTimesLimit = 5,
      util_GetId = (\<lambda>owner name. owner @ ''/'' @ name),
      wrapErrorResponse = (\<lambda>err. case err of
          None \<Rightarrow> \<lparr>Response_Status = ''ok'', Response_Msg = [], Response_Data = DNil, Response_Data2 = DNil\<rparr>
        | Some e \<Rightarrow> \<lparr>Response_Status = ''error'', Response_Msg = message e, Response_Data = DNil,
                     Response_Data2 = DNil\<rparr>),
      EqualFold = (\<lambda>a b. a = b)\<rparr>"

definition demo_lookups :: lookups where
  "demo_lookups =
     \<lparr>GetId = (\<lambda>u. User_Owner u @ ''/'' @ User_Name u),
      IsGlobalAdmin = (\<lambda>u. User_Owner u = ''built-in''),
      IsPasswordChangeRequired = (\<lambda>u. False),
      HasPromptPage = (\<lambda>a. False),
      IsProviderVisible = (\<lambda>a n. True),
      IsGrantTypeValid = (\<lambda>m gts. m \<in> set gts),
      GetApplication = (\<lambda>i. Inr (Some demo_application)),
      GetApplicationByClientId = (\<lambda>i. Inr (Some demo_application)),
      GetOrganization = (\<lambda>i. (Some \<lparr>Organization_Name = ''org'',
          Organization_DefaultApplication = ''app-built-in'', Organization_DefaultAvatar = []\<rparr>, None)),
      GetProvider = (\<lambda>i. Inr (Some demo_provider)),
      GetUser = (\<lambda>i. if i = ''org/alice'' then Inr (Some alice)
                       else if i = ''org/bob'' then Inr (Some bob) else Inr None),
      GetUserByField = (\<lambda>owner field v. if v = ''gh-42'' then Inr (Some bob)
                       else if v = ''gh-1'' then Inr (Some alice) else Inr None),
      GetUserByFields = (\<lambda>owner i. if i = ''alice'' then Inr (Some alice)
                       else if i = ''bob'' then Inr (Some bob) else Inr None),
      CheckLoginPermission = (\<lambda>i a. Inr True),
      GetSubscriptionsByUser = (\<lambda>owner name. Inr []),
      GetApplicationDefaultPricing = (\<lambda>owner name. Inr None)\<rparr>"

definition demo_issuers :: issuers where
  "demo_issuers =
     \<lparr>getSid = (\<lambda>i. ''sid-1''),
      GetOAuthCode = (\<lambda>args. Inr \<lparr>Code_Message = [], Code_Code = ''c0de''\<rparr>),
      GetTokenByUser = (\<lambda>a u scope host sid. Some \<lparr>Token_AccessToken = ''at'', Token_RefreshToken = ''rt''\<rparr>),
      GetSamlResponse = (\<lambda>a u r host. Inr (''assertion'', ''https://sp.example.com/acs'', ''POST'')),
      GenerateCasToken = (\<lambda>i service. Inr ''ST-1''),
      AddSession = (\<lambda>s. None),
      SetUserOAuthProperties = (\<lambda>org u t info. None),
      LinkUserAccount = (\<lambda>u t i. Inr True),
      GetMfaUtil = (\<lambda>t u. if t = ''app''
         then Some (\<lambda>passcode. if passcode = ''123456'' then None else Some (Error ''invalid passcode''))
         else None),
      MfaRecover = (\<lambda>u code. None)\<rparr>"

definition demo_idp :: identity_provider where
  "demo_idp =
     \<lparr>ParseSamlResponse = (\<lambda>r p host. Inr (octocat, None)),
      GetIdProvider = (\<lambda>p uri. True),
      GetProviderHttpClient = (\<lambda>p. None),
      GetToken = (\<lambda>p code. Inr (Some \<lparr>OAuthToken_AccessToken = ''at'', OAuthToken_Valid = True,
                                       OAuthToken_IdToken = []\<rparr>)),
      GetUserInfo = (\<lambda>p t. Inr octocat),
      ParseSigned = (\<lambda>s. None),
      UnsafeClaims = (\<lambda>s. Inr [])\<rparr>"

definition demo_cenv :: cenv where
  "demo_cenv = \<lparr>site = demo_site, lookups = demo_lookups, issuers = demo_issuers, idp = demo_idp\<rparr>"

definition zero_AuthForm :: AuthForm where
  "zero_AuthForm =
     \<lparr>AuthForm_Type = [], AuthForm_Username = [], AuthForm_Provider = [], AuthForm_ClientId = [],
      AuthForm_Application = [], AuthForm_RedirectUri = [], AuthForm_State = [], AuthForm_Code = [],
      AuthForm_Method = [], AuthForm_SamlRequest = [], AuthForm_SamlResponse = [],
      AuthForm_AutoSignin = False, AuthForm_Passcode = [], AuthForm_MfaType = [],
      AuthForm_RecoveryCode = []\<rparr>"

text \<open>A request without parameters, one with a plain PKCE method, and one asking for a user.\<close>

definition demo_request :: request where
  "demo_request = \<lparr>Input = (\<lambda>k. []), Host = ''door.example.com'', AcceptLanguage = ''en'',
     SessionID = ''session-1''\<rparr>"

definition plain_request :: request where
  "plain_request = demo_request\<lparr>Input := (\<lambda>k. if k = ''code_challenge_method'' then ''plain'' else [])\<rparr>"

definition captcha_request :: "string \<Rightarrow> request" where
  "captcha_request userId = demo_request\<lparr>Input := (\<lambda>k. if k = ''user_id'' then userId else
     if k = ''organization'' then ''org'' else [])\<rparr>"

text \<open>A fresh session, the session of the signed-in \<open>alice\<close>, and her MFA-pending session.\<close>

definition fresh_controller :: controller where
  "fresh_controller = \<lparr>SessionUsername = [], MfaUserSession = [], ChangePasswordUserSession = [],
     ExpireForSession = False, replies = [], calls = []\<rparr>"

definition alice_controller :: controller where
  "alice_controller = fresh_controller\<lparr>SessionUsername := ''org/alice''\<rparr>"

definition mfa_controller :: controller where
  "mfa_controller = fresh_controller\<lparr>MfaUserSession := ''org/alice''\<rparr>"

definition code_form :: AuthForm where
  "code_form = zero_AuthForm\<lparr>AuthForm_Type := ''code'', AuthForm_Application := ''app-built-in''\<rparr>"

definition github_form :: AuthForm where
  "github_form = zero_AuthForm\<lparr>AuthForm_Type := ''login'', AuthForm_Application := ''app-built-in'',
     AuthForm_Provider := ''provider_github'', AuthForm_State := ''forged'', AuthForm_Code := ''abc''\<rparr>"

definition passcode_form :: "string \<Rightarrow> AuthForm" where
  "passcode_form passcode = zero_AuthForm\<lparr>AuthForm_Type := ''login'',
     AuthForm_Application := ''app-built-in'', AuthForm_MfaType := ''app'', AuthForm_Passcode := passcode\<rparr>"

section \<open>Properties\<close>

subsection \<open>Auxiliary facts\<close>

lemma find_first:
  "\<forall>u\<in>set pre. \<not> P u \<Longrightarrow> P user \<Longrightarrow> find P (pre @ user # post) = Some user"
  by (induction pre) auto

lemma find_none: "\<forall>u\<in>set us. \<not> P u \<Longrightarrow> find P us = None"
  by (induction us) auto

subsection \<open>One pass through the loop of SyncLdapUsers, and the loop\<close>

lemma trace_record_call [simp]: "trace (record_call c w) = trace w @ [c]"
  by (simp add: record_call_def)

lemma users_record_call [simp]: "users (record_call c w) = users w"
  by (simp add: record_call_def)

lemma links_record_call [simp]: "links (record_call c w) = links w"
  by (simp add: record_call_def)

lemma roles_record_call [simp]: "roles (record_call c w) = roles w"
  by (simp add: record_call_def)

lemma store_user_fields [simp]:
  "users (store_user stored w) = users w @ [stored]"
  "links (store_user stored w) = links w"
  "roles (store_user stored w) = roles w"
  "trace (store_user stored w) = trace w"
  by (simp_all add: store_user_def)

lemma store_links_fields [simp]:
  "users (store_links table w) = users w"
  "links (store_links table w) = table"
  "roles (store_links table w) = roles w"
  "trace (store_links table w) = trace w"
  by (simp_all add: store_links_def)

lemma store_roles_fields [simp]:
  "users (store_roles table w) = users w"
  "links (store_roles table w) = links w"
  "roles (store_roles table w) = table"
  "trace (store_roles table w) = trace w"
  by (simp_all add: store_roles_def)

lemma grows_refl: "grows w w Q"
  by (simp add: grows_def)

lemma grows_trans:
  assumes "grows w w1 Q" and "grows w1 w2 Q"
  shows "grows w w2 Q"
proof -
  from assms(1) obtain a1 n1 where 1: "users w1 = users w @ a1" "trace w1 = trace w @ n1" "\<forall>c\<in>set n1. Q c"
      "links w1 \<noteq> links w \<longrightarrow> (\<exists>c\<in>set n1. is_AddUserIdProvider c)"
      "roles w1 \<noteq> roles w \<longrightarrow> (\<exists>c\<in>set n1. is_SyncRoles c)"
    unfolding grows_def by blast
  from assms(2) obtain a2 n2 where 2: "users w2 = users w1 @ a2" "trace w2 = trace w1 @ n2" "\<forall>c\<in>set n2. Q c"
      "links w2 \<noteq> links w1 \<longrightarrow> (\<exists>c\<in>set n2. is_AddUserIdProvider c)"
      "roles w2 \<noteq> roles w1 \<longrightarrow> (\<exists>c\<in>set n2. is_SyncRoles c)"
    unfolding grows_def by blast
  have "users w2 = users w @ (a1 @ a2)" "trace w2 = trace w @ (n1 @ n2)"
    using 1(1,2) 2(1,2) by simp_all
  moreover have "\<forall>c\<in>set (n1 @ n2). Q c"
    using 1(3) 2(3) by auto
  moreover have "links w2 \<noteq> links w \<longrightarrow> (\<exists>c\<in>set (n1 @ n2). is_AddUserIdProvider c)"
    using 1(4) 2(4) by (cases "links w1 = links w") auto
  moreover have "roles w2 \<noteq> roles w \<longrightarrow> (\<exists>c\<in>set (n1 @ n2). is_SyncRoles c)"
    using 1(5) 2(5) by (cases "roles w1 = roles w") auto
  ultimately show ?thesis
    unfolding grows_def by blast
qed

lemma grows_call: "Q c \<Longrightarrow> grows w (record_call c w) Q"
  by (simp add: grows_def)

lemma grows_mono: "grows w w' Q \<Longrightarrow> (\<And>c. Q c \<Longrightarrow> R c) \<Longrightarrow> grows w w' R"
  by (fastforce simp: grows_def)

text \<open>A part that contains \<open>dc=\<close> or \<open>ou=\<close> has three bytes at least, so \<open>part[3:]\<close> cannot panic.\<close>

lemma Contains_length: "Contains s sub \<Longrightarrow> length sub \<le> length s"
proof (induction s)
  case Nil
  then show ?case by simp
next
  case (Cons c cs)
  show ?case
  proof (cases "take (length sub) (c # cs) = sub")
    case True
    then have "length sub = length (take (length sub) (c # cs))"
      by simp
    also have "\<dots> \<le> length (c # cs)"
      by (simp only: length_take min.cobounded2)
    finally show ?thesis .
  next
    case False
    with Cons show ?thesis by simp
  qed
qed

lemma GetExistUuids_world:
  "snd (GetExistUuids e owner uuids w) = record_call (Call_GetExistUuids owner uuids) w"
  by (simp add: GetExistUuids_def Let_def split: option.splits)

lemma GetExistUuids_found:
  "fst (GetExistUuids e owner uuids w) = Inr existUuids \<Longrightarrow>
     x \<in> set existUuids \<longleftrightarrow> x \<in> set uuids \<and> local_uuid w owner x"
  by (auto simp: GetExistUuids_def Let_def local_uuid_def split: option.splits)

lemma buildLdapUserName_world:
  "snd (buildLdapUserName e l w) = record_call (Call_GetUserByNames (LdapUser_Uid l) (uidWithNumber l)) w
   \<or> snd (buildLdapUserName e l w) =
       record_call (Call_randstr_Hex 6) (record_call (Call_GetUserByNames (LdapUser_Uid l) (uidWithNumber l)) w)"
  by (simp add: buildLdapUserName_def Let_def split: option.splits)

lemma buildLdapUserName_grows:
  "(\<And>a b. Q (Call_GetUserByNames a b)) \<Longrightarrow> (\<And>n. Q (Call_randstr_Hex n)) \<Longrightarrow>
   grows w (snd (buildLdapUserName e l w)) Q"
  using buildLdapUserName_world [of e l w]
  by (auto simp: grows_def)


lemma roles_world:
  "step_world (SyncLdapUsers_roles e cx x name ex fa w) = record_call (Call_GetLdap (ctx_ldapId cx)) w
   \<or> \<not> role_mapping_off e (ctx_ldapId cx) \<and>
     step_world (SyncLdapUsers_roles e cx x name ex fa w) =
       store_roles (snd (SyncRoles e (record_call (Call_GetLdap (ctx_ldapId cx)) w) x name (ctx_owner cx)))
         (record_call (Call_SyncRoles x name (ctx_owner cx)) (record_call (Call_GetLdap (ctx_ldapId cx)) w))"
  by (auto simp add: SyncLdapUsers_roles_def role_mapping_off_def Let_def split: option.splits prod.splits)

lemma roles_result:
  "SyncLdapUsers_roles e cx x name ex fa w = Next ex' fa' w' \<Longrightarrow> ex' = ex \<and> fa' = fa"
  "SyncLdapUsers_roles e cx x name ex fa w = Stop r w' \<Longrightarrow> \<not> clean_return r"
  by (auto simp add: SyncLdapUsers_roles_def Let_def split: option.splits prod.splits if_splits)

lemma create_result:
  "SyncLdapUsers_create e cx x name w = Left r w' \<Longrightarrow> \<not> clean_return r"
  by (auto simp add: SyncLdapUsers_create_def Let_def split: option.splits prod.splits if_splits sum.splits)

lemma create_grows:
  assumes "Q Call_GetInitScore"
    and "\<And>u. User_Ldap u = LdapUser_Uuid x \<Longrightarrow> Q (Call_AddUser u)"
    and "\<And>p. UserIdProvider_UsernameFromIdp p = LdapUser_Uuid x \<Longrightarrow> Q (Call_AddUserIdProvider p)"
  shows "grows w (create_world (SyncLdapUsers_create e cx x name w)) Q"
  using assms
  by (auto simp add: SyncLdapUsers_create_def Let_def grows_def zero_User_def split: option.splits prod.splits if_splits sum.splits)


lemma filter_eq_distinct:
  "distinct ys \<Longrightarrow> filter ((=) a) ys = (if a \<in> set ys then [a] else [])"
  by (induction ys) auto

lemma hits_remdups:
  "filter (\<lambda>existUuid. LdapUser_Uuid x = existUuid)
       (remdups (filter (\<lambda>y. y \<in> set uuids) (map User_Ldap (filter (\<lambda>u. User_Owner u = owner) (users w)))))
   = (if LdapUser_Uuid x \<in> set uuids \<and> local_uuid w owner (LdapUser_Uuid x) then [LdapUser_Uuid x] else [])"
proof -
  have "LdapUser_Uuid x \<in> set (filter (\<lambda>y. y \<in> set uuids) (map User_Ldap (filter (\<lambda>u. User_Owner u = owner) (users w))))
     \<longleftrightarrow> LdapUser_Uuid x \<in> set uuids \<and> local_uuid w owner (LdapUser_Uuid x)"
    by (force simp: local_uuid_def)
  then show ?thesis
    by (subst filter_eq_distinct) simp_all
qed

lemma step_query_error:
  "orm_error e w = Some err \<Longrightarrow>
   SyncLdapUsers_step e cx x ex fa w =
     Stop (Return ([], [], Some err)) (record_call (Call_GetExistUuids (ctx_owner cx) (ctx_uuids cx)) w)"
  by (simp add: SyncLdapUsers_step_def GetExistUuids_def Let_def)

lemma step_name_error:
  "orm_error e w = None \<Longrightarrow>
   buildLdapUserName e x (record_call (Call_GetExistUuids (ctx_owner cx) (ctx_uuids cx)) w) = (Inl err, w2) \<Longrightarrow>
   SyncLdapUsers_step e cx x ex fa w = Stop (Return ([], [], Some err)) w2"
  by (simp add: SyncLdapUsers_step_def GetExistUuids_def Let_def)

lemma step_found:
  "orm_error e w = None \<Longrightarrow>
   buildLdapUserName e x (record_call (Call_GetExistUuids (ctx_owner cx) (ctx_uuids cx)) w) = (Inr name, w2) \<Longrightarrow>
   LdapUser_Uuid x \<in> set (ctx_uuids cx) \<and> local_uuid w (ctx_owner cx) (LdapUser_Uuid x) \<Longrightarrow>
   SyncLdapUsers_step e cx x ex fa w = SyncLdapUsers_roles e cx x name (ex @ [x]) fa w2"
  by (simp add: SyncLdapUsers_step_def GetExistUuids_def Let_def hits_remdups)

lemma step_not_found:
  "orm_error e w = None \<Longrightarrow>
   buildLdapUserName e x (record_call (Call_GetExistUuids (ctx_owner cx) (ctx_uuids cx)) w) = (Inr name, w2) \<Longrightarrow>
   \<not> (LdapUser_Uuid x \<in> set (ctx_uuids cx) \<and> local_uuid w (ctx_owner cx) (LdapUser_Uuid x)) \<Longrightarrow>
   SyncLdapUsers_step e cx x ex fa w =
     (case SyncLdapUsers_create e cx x name w2 of
        Left r w3 \<Rightarrow> Stop r w3
      | NotAffected w3 \<Rightarrow> Next ex (fa @ [x]) w3
      | Created w3 \<Rightarrow> SyncLdapUsers_roles e cx x name ex fa w3)"
  by (auto simp add: SyncLdapUsers_step_def GetExistUuids_def Let_def hits_remdups split: create_step.splits)


lemma roles_grows:
  assumes "\<And>i. Q (Call_GetLdap i)"
    and "\<And>l n ow. \<not> role_mapping_off e (ctx_ldapId cx) \<Longrightarrow> Q (Call_SyncRoles l n ow)"
  shows "grows w (step_world (SyncLdapUsers_roles e cx x name ex fa w)) Q"
  using roles_world [of e cx x name ex fa w] assms
  by (auto simp: grows_def)


lemma roles_links: "links (step_world (SyncLdapUsers_roles e cx x name ex fa w)) = links w"
  using roles_world [of e cx x name ex fa w] by auto

lemma buildLdapUserName_links: "links (snd (buildLdapUserName e l w)) = links w"
  using buildLdapUserName_world [of e l w] by auto


text \<open>What one pass through the loop body adds after its query for the existing uuids.\<close>

lemma step_grows:
  fixes e cx x ex fa w
  defines "w1 \<equiv> record_call (Call_GetExistUuids (ctx_owner cx) (ctx_uuids cx)) w"
  defines "found \<equiv> LdapUser_Uuid x \<in> set (ctx_uuids cx) \<and> local_uuid w (ctx_owner cx) (LdapUser_Uuid x)"
  defines "Q \<equiv> \<lambda>c. \<not> is_GetExistUuids c \<and> (is_creation c \<longrightarrow> creates (LdapUser_Uuid x) c \<and> \<not> found) \<and>
       (is_SyncRoles c \<longrightarrow> \<not> role_mapping_off e (ctx_ldapId cx))"
  shows "grows w1 (step_world (SyncLdapUsers_step e cx x ex fa w)) Q"
proof (cases "orm_error e w")
  case (Some err)
  then show ?thesis
    by (simp add: step_query_error w1_def grows_refl)
next
  case None
  obtain r2 w2 where b: "buildLdapUserName e x w1 = (r2, w2)"
    by force
  have g2: "grows w1 w2 Q"
    using buildLdapUserName_grows [of Q w1 e x] b by (simp add: Q_def)
  have roles: "\<And>name ex' fa' w'. grows w' (step_world (SyncLdapUsers_roles e cx x name ex' fa' w')) Q"
    by (rule roles_grows) (simp_all add: Q_def)
  show ?thesis
  proof (cases r2)
    case (Inl err)
    with None b show ?thesis
      using g2 by (simp add: step_name_error [of e w x cx err w2] w1_def)
  next
    case (Inr name)
    show ?thesis
    proof (cases found)
      case True
      with None b Inr have "SyncLdapUsers_step e cx x ex fa w = SyncLdapUsers_roles e cx x name (ex @ [x]) fa w2"
        by (simp add: step_found w1_def found_def)
      then have "step_world (SyncLdapUsers_step e cx x ex fa w) =
          step_world (SyncLdapUsers_roles e cx x name (ex @ [x]) fa w2)"
        by simp
      then show ?thesis
        using grows_trans [OF g2 roles [of w2 name "ex @ [x]" fa]] by simp
    next
      case False
      have g3: "grows w2 (create_world (SyncLdapUsers_create e cx x name w2)) Q"
        by (rule create_grows) (simp_all add: Q_def False)
      from None b Inr False have st: "SyncLdapUsers_step e cx x ex fa w =
         (case SyncLdapUsers_create e cx x name w2 of
            Left r w3 \<Rightarrow> Stop r w3
          | NotAffected w3 \<Rightarrow> Next ex (fa @ [x]) w3
          | Created w3 \<Rightarrow> SyncLdapUsers_roles e cx x name ex fa w3)"
        by (simp add: step_not_found w1_def found_def)
      show ?thesis
      proof (cases "SyncLdapUsers_create e cx x name w2")
        case (Created w3)
        with st have "step_world (SyncLdapUsers_step e cx x ex fa w) =
            step_world (SyncLdapUsers_roles e cx x name ex fa w3)"
          by simp
        moreover from Created g3 have "grows w2 w3 Q"
          by simp
        ultimately show ?thesis
          using grows_trans [OF g2 grows_trans [OF _ roles [of w3 name ex fa]]] by simp
      next
        case (NotAffected w3)
        with st have "step_world (SyncLdapUsers_step e cx x ex fa w) = w3"
          by simp
        moreover from NotAffected g3 have "grows w2 w3 Q"
          by simp
        ultimately show ?thesis
          using grows_trans [OF g2] by simp
      next
        case (Left r w3)
        with st have "step_world (SyncLdapUsers_step e cx x ex fa w) = w3"
          by simp
        moreover from Left g3 have "grows w2 w3 Q"
          by simp
        ultimately show ?thesis
          using grows_trans [OF g2] by simp
      qed
    qed
  qed
qed

lemma step_stop:
  assumes "SyncLdapUsers_step e cx x ex fa w = Stop r w'"
  shows "\<not> clean_return r"
proof (cases "orm_error e w")
  case (Some err)
  with assms show ?thesis
    by (auto simp add: step_query_error)
next
  case None
  let ?w1 = "record_call (Call_GetExistUuids (ctx_owner cx) (ctx_uuids cx)) w"
  obtain r2 w2 where b: "buildLdapUserName e x ?w1 = (r2, w2)"
    by force
  show ?thesis
  proof (cases r2)
    case (Inl err)
    with None b assms show ?thesis
      by (auto simp add: step_name_error [of e w x cx err w2])
  next
    case (Inr name)
    show ?thesis
    proof (cases "LdapUser_Uuid x \<in> set (ctx_uuids cx) \<and> local_uuid w (ctx_owner cx) (LdapUser_Uuid x)")
      case True
      with None b Inr have "SyncLdapUsers_step e cx x ex fa w = SyncLdapUsers_roles e cx x name (ex @ [x]) fa w2"
        by (simp add: step_found)
      with assms show ?thesis
        by (simp add: roles_result(2))
    next
      case False
      with None b Inr have st: "SyncLdapUsers_step e cx x ex fa w =
         (case SyncLdapUsers_create e cx x name w2 of
            Left r w3 \<Rightarrow> Stop r w3
          | NotAffected w3 \<Rightarrow> Next ex (fa @ [x]) w3
          | Created w3 \<Rightarrow> SyncLdapUsers_roles e cx x name ex fa w3)"
        by (simp add: step_not_found)
      with assms show ?thesis
        by (auto split: create_step.splits dest: roles_result(2) create_result)
    qed
  qed
qed




lemma grows_local_uuid: "grows w w' Q \<Longrightarrow> local_uuid w owner uuid \<Longrightarrow> local_uuid w' owner uuid"
  by (auto simp: grows_def local_uuid_def)

lemma grows_new_calls: "grows w w' Q \<Longrightarrow> \<forall>c\<in>set (new_calls w w'). Q c"
  by (auto simp: grows_def new_calls_def)


lemma step_queries: "queries (step_world (SyncLdapUsers_step e cx x ex fa w)) = queries w + 1"
proof -
  from step_grows [of cx w e x ex fa]
  obtain new where tr: "trace (step_world (SyncLdapUsers_step e cx x ex fa w)) =
        trace (record_call (Call_GetExistUuids (ctx_owner cx) (ctx_uuids cx)) w) @ new"
      and no: "\<forall>c\<in>set new. \<not> is_GetExistUuids c"
    unfolding grows_def by blast
  from no have "filter is_GetExistUuids new = []"
    by (simp add: filter_empty_conv)
  with tr show ?thesis
    by (simp add: queries_def)
qed

lemma step_grows_from_start:
  assumes "LdapUser_Uuid x \<in> set (ctx_uuids cx)"
  shows "grows w (step_world (SyncLdapUsers_step e cx x ex fa w))
     (\<lambda>c. (is_GetExistUuids c \<longrightarrow> c = Call_GetExistUuids (ctx_owner cx) (ctx_uuids cx)) \<and>
          (is_creation c \<longrightarrow> creates (LdapUser_Uuid x) c \<and> \<not> local_uuid w (ctx_owner cx) (LdapUser_Uuid x)) \<and>
          (is_SyncRoles c \<longrightarrow> \<not> role_mapping_off e (ctx_ldapId cx)))"
    (is "grows w ?w' ?Q")
proof -
  have "grows w (record_call (Call_GetExistUuids (ctx_owner cx) (ctx_uuids cx)) w) ?Q"
    by (rule grows_call) simp
  moreover have "grows (record_call (Call_GetExistUuids (ctx_owner cx) (ctx_uuids cx)) w) ?w' ?Q"
    by (rule grows_mono [OF step_grows]) (simp add: assms)
  ultimately show ?thesis
    by (rule grows_trans)
qed

lemma loop_grows:
  assumes "set (map LdapUser_Uuid rest) \<subseteq> set (ctx_uuids cx)"
  shows "grows w (snd (SyncLdapUsers_loop e cx err rest ex fa w))
     (\<lambda>c. (is_GetExistUuids c \<longrightarrow> c = Call_GetExistUuids (ctx_owner cx) (ctx_uuids cx)) \<and>
          (is_creation c \<longrightarrow>
             (\<exists>x\<in>set rest. creates (LdapUser_Uuid x) c \<and> \<not> local_uuid w (ctx_owner cx) (LdapUser_Uuid x))) \<and>
          (is_SyncRoles c \<longrightarrow> \<not> role_mapping_off e (ctx_ldapId cx)))"
  using assms
proof (induction rest arbitrary: ex fa w)
  case Nil
  show ?case by (simp add: grows_refl)
next
  case (Cons x xs)
  let ?Q = "\<lambda>c. (is_GetExistUuids c \<longrightarrow> c = Call_GetExistUuids (ctx_owner cx) (ctx_uuids cx)) \<and>
          (is_creation c \<longrightarrow>
             (\<exists>y\<in>set (x # xs). creates (LdapUser_Uuid y) c \<and> \<not> local_uuid w (ctx_owner cx) (LdapUser_Uuid y))) \<and>
          (is_SyncRoles c \<longrightarrow> \<not> role_mapping_off e (ctx_ldapId cx))"
  let ?s = "SyncLdapUsers_step e cx x ex fa w"
  from Cons.prems have x: "LdapUser_Uuid x \<in> set (ctx_uuids cx)"
    and xs: "set (map LdapUser_Uuid xs) \<subseteq> set (ctx_uuids cx)"
    by simp_all
  have first: "grows w (step_world ?s) ?Q"
    by (rule grows_mono [OF step_grows_from_start [OF x]]) simp
  show ?case
  proof (cases ?s)
    case (Stop r w')
    with first show ?thesis by simp
  next
    case (Next ex' fa' w')
    with first have w': "grows w w' ?Q" by simp
    have "grows w' (snd (SyncLdapUsers_loop e cx err xs ex' fa' w')) ?Q"
      by (rule grows_mono [OF Cons.IH [OF xs]]) (use grows_local_uuid [OF w'] in auto)
    with w' have "grows w (snd (SyncLdapUsers_loop e cx err xs ex' fa' w')) ?Q"
      by (rule grows_trans)
    with Next show ?thesis by simp
  qed
qed

lemma loop_queries:
  "queries (snd (SyncLdapUsers_loop e cx err rest ex fa w)) \<le> queries w + length rest \<and>
   (clean_return (fst (SyncLdapUsers_loop e cx err rest ex fa w)) \<longrightarrow>
      queries (snd (SyncLdapUsers_loop e cx err rest ex fa w)) = queries w + length rest)"
proof (induction rest arbitrary: ex fa w)
  case Nil
  show ?case by simp
next
  case (Cons x xs)
  show ?case
  proof (cases "SyncLdapUsers_step e cx x ex fa w")
    case (Stop r w')
    have "queries w' = queries w + 1"
      using step_queries [of e cx x ex fa w] by (simp only: Stop step_world.simps)
    moreover have "\<not> clean_return r"
      by (rule step_stop [OF Stop])
    moreover have "SyncLdapUsers_loop e cx err (x # xs) ex fa w = (r, w')"
      by (simp add: Stop)
    ultimately show ?thesis
      by (simp only: fst_conv snd_conv) simp
  next
    case (Next ex' fa' w')
    have q: "queries w' = queries w + 1"
      using step_queries [of e cx x ex fa w] by (simp only: Next step_world.simps)
    have l: "SyncLdapUsers_loop e cx err (x # xs) ex fa w = SyncLdapUsers_loop e cx err xs ex' fa' w'"
      by (simp add: Next)
    from Cons.IH [of ex' fa' w'] show ?thesis
      unfolding l q by simp
  qed
qed



lemma start_world_facts:
  "users (start_world owner ldapId w) = users w"
  "queries (start_world owner ldapId w) = queries w"
  "grows w (start_world owner ldapId w) (\<lambda>c. \<not> is_GetExistUuids c \<and> \<not> is_creation c \<and> \<not> is_SyncRoles c)"
  "local_uuid (start_world owner ldapId w) = local_uuid w"
  by (auto simp: start_world_def queries_def grows_def local_uuid_def fun_eq_iff)

lemma SyncLdapUsers_cases:
  obtains (panic) w' where "SyncLdapUsers e owner syncUsers ldapId w = (Panic, w')"
      and "users w' = users w" and "queries w' = queries w"
      and "grows w w' (\<lambda>c. \<not> is_GetExistUuids c \<and> \<not> is_creation c \<and> \<not> is_SyncRoles c)"
  | (loop) cx err where "ctx_owner cx = owner" and "ctx_uuids cx = map LdapUser_Uuid syncUsers"
      and "ctx_ldapId cx = ldapId"
      and "SyncLdapUsers e owner syncUsers ldapId w =
             SyncLdapUsers_loop e cx err syncUsers [] [] (start_world owner ldapId w)"
proof (cases "getOrganization e w ''admin'' owner")
  case (Inl err)
  then have "SyncLdapUsers e owner syncUsers ldapId w = (Panic, record_call (Call_getOrganization ''admin'' owner) w)"
    by (simp add: SyncLdapUsers_def Let_def)
  then show ?thesis
    by (rule panic) (auto simp: queries_def grows_def)
next
  case (Inr organization)
  obtain l err where g: "GetLdap e (record_call (Call_getOrganization ''admin'' owner) w) ldapId = (l, err)"
    by force
  show ?thesis
  proof (cases l)
    case None
    with Inr g have "SyncLdapUsers e owner syncUsers ldapId w = (Panic, start_world owner ldapId w)"
      by (simp add: SyncLdapUsers_def Let_def start_world_def)
    then show ?thesis
      by (rule panic) (simp_all add: start_world_facts)
  next
    case (Some ldap)
    let ?cx = "\<lparr>ctx_owner = owner, ctx_uuids = map LdapUser_Uuid syncUsers, ctx_organization = organization,
                        ctx_affiliation = dn_parts ''dc='' (Ldap_BaseDn ldap),
                        ctx_tag = dn_parts ''ou='' (Ldap_Username ldap),
                        ctx_ldapId = ldapId\<rparr>"
    from Some Inr g have "SyncLdapUsers e owner syncUsers ldapId w =
             SyncLdapUsers_loop e ?cx err syncUsers [] [] (start_world owner ldapId w)"
      by (simp add: SyncLdapUsers_def Let_def start_world_def)
    then show ?thesis
      by (intro loop [of ?cx err]) simp_all
  qed
qed

lemma SyncLdapUsers_grows:
  "grows w (snd (SyncLdapUsers e owner syncUsers ldapId w))
     (\<lambda>c. (is_GetExistUuids c \<longrightarrow> c = Call_GetExistUuids owner (map LdapUser_Uuid syncUsers)) \<and>
          (is_creation c \<longrightarrow>
             (\<exists>x\<in>set syncUsers. creates (LdapUser_Uuid x) c \<and> \<not> local_uuid w owner (LdapUser_Uuid x))) \<and>
          (is_SyncRoles c \<longrightarrow> \<not> role_mapping_off e ldapId))"
    (is "grows w ?w' ?Q")
proof (cases rule: SyncLdapUsers_cases [of e owner syncUsers ldapId w])
  case (panic w')
  then show ?thesis
    using grows_mono [of w w' _ ?Q] by simp
next
  case (loop cx err)
  have "grows w (start_world owner ldapId w) ?Q"
    by (rule grows_mono [OF start_world_facts(3)]) simp
  moreover have "grows (start_world owner ldapId w) ?w' ?Q"
    using loop_grows [of syncUsers cx "start_world owner ldapId w" e err "[]" "[]"] loop
    by (simp add: start_world_facts(4))
  ultimately show ?thesis
    by (rule grows_trans)
qed

lemma name_lookup_ok:
  assumes "orm_error e w = None"
  shows "\<exists>name w'. buildLdapUserName e l w = (Inr name, w') \<and> users w' = users w"
  using assms
  by (simp add: buildLdapUserName_def Let_def split: option.splits)

lemma create_not_affected:
  assumes "GetInitScore e w (ctx_organization cx) = Inr score"
    and "ctx_organization cx \<noteq> None"
    and "\<forall>w' u. User_Ldap u = LdapUser_Uuid x \<longrightarrow> (\<exists>s. AddUser e w' u = Inr (False, s))"
  shows "\<exists>w'. SyncLdapUsers_create e cx x name w = NotAffected w' \<and> users w' = users w"
proof -
  from assms(2) obtain organization where org: "ctx_organization cx = Some organization"
    by auto
  let ?newUser = "zero_User\<lparr>
                      User_Owner := ctx_owner cx,
                      User_Name := name,
                      User_CreatedTime := GetCurrentTime e (record_call Call_GetInitScore w),
                      User_DisplayName := buildLdapDisplayName x,
                      User_SignupApplication := Organization_DefaultApplication organization,
                      User_Type := ''normal-user'',
                      User_Avatar := Organization_DefaultAvatar organization,
                      User_Email := LdapUser_Email x,
                      User_Phone := LdapUser_Mobile x,
                      User_Address := [LdapUser_Address x],
                      User_Affiliation := ctx_affiliation cx,
                      User_Tag := ctx_tag cx,
                      User_Score := score,
                      User_Ldap := LdapUser_Uuid x,
                      User_Properties := []\<rparr>"
  have "User_Ldap ?newUser = LdapUser_Uuid x"
    by simp
  with assms(3) obtain s where "AddUser e (record_call Call_GetInitScore w) ?newUser = Inr (False, s)"
    by blast
  with assms(1) org show ?thesis
    by (simp add: SyncLdapUsers_create_def Let_def)
qed





text \<open>The definitions to unfold when a run is evaluated on a concrete input.\<close>

lemmas run_defs = SyncLdapUsers_def SyncLdapUsers_step_def SyncLdapUsers_create_def SyncLdapUsers_roles_def
  GetExistUuids_def buildLdapUserName_def buildLdapDisplayName_def uidWithNumber_def record_call_def
  dn_parts_def store_user_def store_links_def store_roles_def randstr_Hex_def hex_digits_def Let_def new_calls_def queries_def local_uuid_def
  quiet_env_def role_mapping_env_def add_error_env_def bob_rejected_env_def example_ldap_def
  batch_ctx_def linked_world_def composite_world_def staff_record_def jdoe_world_def jdoe_record_def bob_record_def carol_record_def zero_User_def zero_LdapUser_def

subsection \<open>The controller\<close>

text \<open>The definitions to unfold when the controller is evaluated on a concrete input.\<close>

lemmas ctl_defs = HandleLoggedIn_def HandleLoggedIn_permission_def HandleLoggedIn_subscription_def
  HandleLoggedIn_complete_def HandleLoggedIn_finish_def keep_signed_in_def codeToResponse_def
  tokenToResponse_def ResponseTypeLogin_def ResponseTypeCode_def ResponseTypeToken_def
  ResponseTypeIdToken_def ResponseTypeSaml_def ResponseTypeCas_def
  Login_branch_def Login_provider_identity_def Login_provider_oauth_def Login_provider_claims_def
  Login_provider_link_def Login_provider_signin_def setHttpClient_def isProxyProviderType_def
  Login_mfa_def Login_mfa_complete_def Login_mfa_factor_def GetCaptchaStatus_def
  respond_def invoke_def message_def new_replies_def new_ctl_calls_def Let_def

lemmas demo_defs = demo_cenv_def demo_site_def demo_lookups_def demo_issuers_def demo_idp_def
  demo_application_def demo_provider_def alice_def bob_def octocat_def english_def
  zero_AuthForm_def zero_User_def demo_request_def plain_request_def captcha_request_def
  fresh_controller_def alice_controller_def mfa_controller_def code_form_def github_form_def
  passcode_form_def already_linked_format_def


text \<open>The controller functions do not look at the replies and calls recorded so far.\<close>

lemma relog_respond: "respond r (relog R K c) = relog R K (respond r c)"
  by (simp add: respond_def relog_def)

lemma relog_invoke: "invoke k (relog R K c) = relog R K (invoke k c)"
  by (simp add: invoke_def relog_def)

lemma relog_fields:
  "SessionUsername (relog R K c) = SessionUsername c"
  "MfaUserSession (relog R K c) = MfaUserSession c"
  "ChangePasswordUserSession (relog R K c) = ChangePasswordUserSession c"
  "ExpireForSession (relog R K c) = ExpireForSession c"
  by (simp_all add: relog_def)

lemma relog_updates:
  "(relog R K c)\<lparr>SessionUsername := x\<rparr> = relog R K (c\<lparr>SessionUsername := x\<rparr>)"
  "(relog R K c)\<lparr>MfaUserSession := x\<rparr> = relog R K (c\<lparr>MfaUserSession := x\<rparr>)"
  "(relog R K c)\<lparr>ChangePasswordUserSession := x\<rparr> = relog R K (c\<lparr>ChangePasswordUserSession := x\<rparr>)"
  "(relog R K c)\<lparr>ExpireForSession := b\<rparr> = relog R K (c\<lparr>ExpireForSession := b\<rparr>)"
  "(relog R K c)\<lparr>ChangePasswordUserSession := x, MfaUserSession := y\<rparr>
     = relog R K (c\<lparr>ChangePasswordUserSession := x, MfaUserSession := y\<rparr>)"
  by (simp_all add: relog_def)

lemmas relog_simps = relog_respond relog_invoke relog_fields relog_updates

lemma keep_signed_in_relog:
  "keep_signed_in E application userId (relog R K c) = relog R K (keep_signed_in E application userId c)"
  by (simp add: keep_signed_in_def relog_simps)

lemma HandleLoggedIn_complete_relog:
  "HandleLoggedIn_complete E rq application user form (relog R K c) =
     apsnd (relog R K) (HandleLoggedIn_complete E rq application user form c)"
proof -
  consider (login) "AuthForm_Type form = ResponseTypeLogin"
    | (code) "AuthForm_Type form \<noteq> ResponseTypeLogin" "AuthForm_Type form = ResponseTypeCode"
    | (token) "AuthForm_Type form \<noteq> ResponseTypeLogin" "AuthForm_Type form \<noteq> ResponseTypeCode"
        "AuthForm_Type form = ResponseTypeToken \<or> AuthForm_Type form = ResponseTypeIdToken"
    | (saml) "AuthForm_Type form \<noteq> ResponseTypeLogin" "AuthForm_Type form \<noteq> ResponseTypeCode"
        "\<not> (AuthForm_Type form = ResponseTypeToken \<or> AuthForm_Type form = ResponseTypeIdToken)"
        "AuthForm_Type form = ResponseTypeSaml"
    | (cas) "AuthForm_Type form \<noteq> ResponseTypeLogin" "AuthForm_Type form \<noteq> ResponseTypeCode"
        "\<not> (AuthForm_Type form = ResponseTypeToken \<or> AuthForm_Type form = ResponseTypeIdToken)"
        "AuthForm_Type form \<noteq> ResponseTypeSaml" "AuthForm_Type form = ResponseTypeCas"
    | (other) "AuthForm_Type form \<noteq> ResponseTypeLogin" "AuthForm_Type form \<noteq> ResponseTypeCode"
        "\<not> (AuthForm_Type form = ResponseTypeToken \<or> AuthForm_Type form = ResponseTypeIdToken)"
        "AuthForm_Type form \<noteq> ResponseTypeSaml" "AuthForm_Type form \<noteq> ResponseTypeCas"
    by blast
  then show ?thesis
  proof cases
    case login
    then show ?thesis
      by (simp add: HandleLoggedIn_complete_def Let_def relog_simps)
  next
    case code
    then show ?thesis
      by (simp add: HandleLoggedIn_complete_def Let_def relog_simps keep_signed_in_relog split: sum.splits)
  next
    case token
    then show ?thesis
      by (simp add: HandleLoggedIn_complete_def Let_def relog_simps split: option.splits)
  next
    case saml
    then show ?thesis
      by (simp add: HandleLoggedIn_complete_def Let_def relog_simps keep_signed_in_relog split: sum.splits)
  next
    case cas
    then show ?thesis
      by (simp add: HandleLoggedIn_complete_def Let_def relog_simps keep_signed_in_relog split: sum.splits)
  next
    case other
    then show ?thesis
      by (simp add: HandleLoggedIn_complete_def Let_def relog_simps)
  qed
qed

lemma HandleLoggedIn_finish_relog:
  "HandleLoggedIn_finish E rq application user form resp (relog R K c) =
     apsnd (relog R K) (HandleLoggedIn_finish E rq application user form resp c)"
  by (auto simp add: HandleLoggedIn_finish_def Let_def relog_simps split: option.splits)

lemma HandleLoggedIn_relog:
  "HandleLoggedIn E rq application user form (relog R K c) =
     apsnd (relog R K) (HandleLoggedIn E rq application user form c)"
proof -
  obtain r c1 where k: "HandleLoggedIn_complete E rq application user form c = (r, c1)"
    by force
  then have k': "HandleLoggedIn_complete E rq application user form (relog R K c) = (r, relog R K c1)"
    by (simp add: HandleLoggedIn_complete_relog)
  show ?thesis
    by (simp add: HandleLoggedIn_def k k' HandleLoggedIn_finish_relog relog_simps
        split: option.splits outcome.splits)
qed

lemma Login_mfa_factor_relog:
  "Login_mfa_factor E authForm user (relog R K c) = apsnd (relog R K) (Login_mfa_factor E authForm user c)"
  by (auto simp add: Login_mfa_factor_def Let_def relog_simps split: option.splits)

lemma Login_mfa_complete_relog:
  "Login_mfa_complete E rq authForm user (relog R K c) =
     apsnd (relog R K) (Login_mfa_complete E rq authForm user c)"
proof -
  have "(case HandleLoggedIn E rq application user authForm (relog R K c) of
               (Panic, c1) \<Rightarrow> (Panic, c1)
             | (Return resp, c1) \<Rightarrow>
                 (Return (), respond (ServeJSON resp) (c1\<lparr>MfaUserSession := []\<rparr>)))
     = apsnd (relog R K) (case HandleLoggedIn E rq application user authForm c of
               (Panic, c1) \<Rightarrow> (Panic, c1)
             | (Return resp, c1) \<Rightarrow>
                 (Return (), respond (ServeJSON resp) (c1\<lparr>MfaUserSession := []\<rparr>)))" for application
  proof -
    obtain h c2 where h: "HandleLoggedIn E rq application user authForm c = (h, c2)"
      by force
    then have "HandleLoggedIn E rq application user authForm (relog R K c) = (h, relog R K c2)"
      by (simp add: HandleLoggedIn_relog)
    with h show ?thesis
      by (simp add: relog_simps split: outcome.splits)
  qed
  then show ?thesis
    by (simp add: Login_mfa_complete_def relog_simps split: sum.splits option.splits)
qed

lemma Login_mfa_relog:
  "Login_mfa E rq authForm (relog R K c) = apsnd (relog R K) (Login_mfa E rq authForm c)"
proof -
  have "(case Login_mfa_factor E authForm user (relog R K c) of
             (Some r, c1) \<Rightarrow> (Return (), respond r c1)
           | (None, c1) \<Rightarrow> Login_mfa_complete E rq authForm user c1)
     = apsnd (relog R K) (case Login_mfa_factor E authForm user c of
             (Some r, c1) \<Rightarrow> (Return (), respond r c1)
           | (None, c1) \<Rightarrow> Login_mfa_complete E rq authForm user c1)" for user
  proof -
    obtain r c1 where f: "Login_mfa_factor E authForm user c = (r, c1)"
      by force
    then have "Login_mfa_factor E authForm user (relog R K c) = (r, relog R K c1)"
      by (simp add: Login_mfa_factor_relog)
    with f show ?thesis
      by (simp add: relog_simps Login_mfa_complete_relog split: option.splits)
  qed
  then show ?thesis
    by (simp add: Login_mfa_def relog_simps split: sum.splits option.splits)
qed

lemma relog_self: "relog (replies c) (calls c) (c\<lparr>replies := [], calls := []\<rparr>) = c"
  by (simp add: relog_def)

lemma same_session_blank:
  "same_session c d \<Longrightarrow> d\<lparr>replies := [], calls := []\<rparr> = c\<lparr>replies := [], calls := []\<rparr>"
  by (cases c, cases d) (simp add: same_session_def)

lemma new_relog:
  "new_replies c (relog (replies c) (calls c) s) = replies s"
  "new_ctl_calls c (relog (replies c) (calls c) s) = calls s"
  by (simp_all add: new_replies_def new_ctl_calls_def relog_def)

lemma Login_mfa_same_session:
  assumes "same_session c d"
  shows "fst (Login_mfa E rq f c) = fst (Login_mfa E rq f d) \<and>
         same_session (snd (Login_mfa E rq f c)) (snd (Login_mfa E rq f d)) \<and>
         new_replies c (snd (Login_mfa E rq f c)) = new_replies d (snd (Login_mfa E rq f d)) \<and>
         new_ctl_calls c (snd (Login_mfa E rq f c)) = new_ctl_calls d (snd (Login_mfa E rq f d))"
proof -
  define z where "z = c\<lparr>replies := [], calls := []\<rparr>"
  have c: "c = relog (replies c) (calls c) z"
    by (simp add: z_def relog_self)
  have d: "d = relog (replies d) (calls d) z"
    using same_session_blank [OF assms] relog_self [of d] by (simp add: z_def)
  have rc: "Login_mfa E rq f c = apsnd (relog (replies c) (calls c)) (Login_mfa E rq f z)"
    using Login_mfa_relog [of E rq f "replies c" "calls c" z] c by simp
  have rd: "Login_mfa E rq f d = apsnd (relog (replies d) (calls d)) (Login_mfa E rq f z)"
    using Login_mfa_relog [of E rq f "replies d" "calls d" z] d by simp
  show ?thesis
    unfolding rc rd by (simp add: new_relog same_session_def relog_fields)
qed

subsection \<open>The name of a directory account\<close>

text \<open>
  Claim C4.  When the lookup of \<open>buildLdapUserName\<close> succeeds, its answer follows the
  collision policy.  Let \<open>user\<close> be the first stored user whose name is the raw uid or
  the composite \<open>uid_uidNumber\<close>.  If the user's LDAP back-reference is the record's
  uuid, the user's name is reused; else, if the user's name is the raw uid, the answer is
  exactly the composite; else it is the composite, an underscore and the random string
  \<open>Hex(6)\<close>, which has six characters, each of them a hex digit.  When no stored user
  has either name the answer is the uid, or the common name when the uid is empty.
\<close>

theorem buildLdapUserName_policy:
  assumes "orm_error e w = None"
  shows
   "(\<forall>pre user post.
       users w = pre @ user # post \<and>
       (\<forall>u\<in>set pre. User_Name u \<noteq> LdapUser_Uid ldapUser \<and> User_Name u \<noteq> uidWithNumber ldapUser) \<and>
       (User_Name user = LdapUser_Uid ldapUser \<or> User_Name user = uidWithNumber ldapUser) \<longrightarrow>
       fst (buildLdapUserName e ldapUser w) =
         Inr (if User_Ldap user = LdapUser_Uuid ldapUser then User_Name user
              else if User_Name user = LdapUser_Uid ldapUser
                then LdapUser_Uid ldapUser @ ''_'' @ LdapUser_UidNumber ldapUser
              else LdapUser_Uid ldapUser @ ''_'' @ LdapUser_UidNumber ldapUser @ ''_'' @
                   randstr_Hex e (record_call (Call_GetUserByNames (LdapUser_Uid ldapUser)
                     (uidWithNumber ldapUser)) w) 6)) \<and>
    ((\<forall>u\<in>set (users w). User_Name u \<noteq> LdapUser_Uid ldapUser \<and> User_Name u \<noteq> uidWithNumber ldapUser) \<longrightarrow>
       fst (buildLdapUserName e ldapUser w) =
         Inr (if LdapUser_Uid ldapUser \<noteq> [] then LdapUser_Uid ldapUser else LdapUser_Cn ldapUser)) \<and>
    length (randstr_Hex e (record_call (Call_GetUserByNames (LdapUser_Uid ldapUser)
       (uidWithNumber ldapUser)) w) 6) = 6 \<and>
    set (randstr_Hex e (record_call (Call_GetUserByNames (LdapUser_Uid ldapUser)
       (uidWithNumber ldapUser)) w) 6) \<subseteq> set ''0123456789abcdef''"
proof (intro conjI allI impI)
  fix pre user post
  assume h: "users w = pre @ user # post \<and>
       (\<forall>u\<in>set pre. User_Name u \<noteq> LdapUser_Uid ldapUser \<and> User_Name u \<noteq> uidWithNumber ldapUser) \<and>
       (User_Name user = LdapUser_Uid ldapUser \<or> User_Name user = uidWithNumber ldapUser)"
  let ?P = "\<lambda>u. User_Name u = LdapUser_Uid ldapUser \<or> User_Name u = uidWithNumber ldapUser"
  from h have "find ?P (users w) = Some user"
    using find_first [of pre ?P user post] by simp
  with assms show "fst (buildLdapUserName e ldapUser w) =
         Inr (if User_Ldap user = LdapUser_Uuid ldapUser then User_Name user
              else if User_Name user = LdapUser_Uid ldapUser
                then LdapUser_Uid ldapUser @ ''_'' @ LdapUser_UidNumber ldapUser
              else LdapUser_Uid ldapUser @ ''_'' @ LdapUser_UidNumber ldapUser @ ''_'' @
                   randstr_Hex e (record_call (Call_GetUserByNames (LdapUser_Uid ldapUser)
                     (uidWithNumber ldapUser)) w) 6)"
    by (simp add: buildLdapUserName_def Let_def uidWithNumber_def)
next
  let ?P = "\<lambda>u. User_Name u = LdapUser_Uid ldapUser \<or> User_Name u = uidWithNumber ldapUser"
  assume "\<forall>u\<in>set (users w). User_Name u \<noteq> LdapUser_Uid ldapUser \<and> User_Name u \<noteq> uidWithNumber ldapUser"
  then have "find ?P (users w) = None"
    using find_none [of "users w" ?P] by simp
  with assms show "fst (buildLdapUserName e ldapUser w) =
         Inr (if LdapUser_Uid ldapUser \<noteq> [] then LdapUser_Uid ldapUser else LdapUser_Cn ldapUser)"
    by (simp add: buildLdapUserName_def Let_def)
next
  show "length (randstr_Hex e (record_call (Call_GetUserByNames (LdapUser_Uid ldapUser)
       (uidWithNumber ldapUser)) w) 6) = 6"
    by (simp add: randstr_Hex_def)
next
  have "\<And>k. hex_digits ! (k mod 16) \<in> set hex_digits"
    by (rule nth_mem) (simp add: hex_digits_def)
  then have "set (randstr_Hex e (record_call (Call_GetUserByNames (LdapUser_Uid ldapUser)
       (uidWithNumber ldapUser)) w) 6) \<subseteq> set hex_digits"
    unfolding randstr_Hex_def by auto
  then show "set (randstr_Hex e (record_call (Call_GetUserByNames (LdapUser_Uid ldapUser)
       (uidWithNumber ldapUser)) w) 6) \<subseteq> set ''0123456789abcdef''"
    by (simp only: hex_digits_def)
qed

theorem buildLdapUserName_policy_witness:
  "orm_error quiet_env jdoe_world = None
   \<and> fst (buildLdapUserName quiet_env jdoe_record jdoe_world) = Inr ''jdoe_1001''
   \<and> orm_error quiet_env composite_world = None
   \<and> fst (buildLdapUserName quiet_env jdoe_record composite_world) = Inr ''jdoe_1001_abcdef''"
proof -
  have ok: "orm_error quiet_env jdoe_world = None"
    by (simp add: quiet_env_def)
  have ok': "orm_error quiet_env composite_world = None"
    by (simp add: quiet_env_def)
  have "users jdoe_world = [] @ hd (users jdoe_world) # [] \<and>
       (\<forall>u\<in>set []. User_Name u \<noteq> LdapUser_Uid jdoe_record \<and> User_Name u \<noteq> uidWithNumber jdoe_record) \<and>
       (User_Name (hd (users jdoe_world)) = LdapUser_Uid jdoe_record
          \<or> User_Name (hd (users jdoe_world)) = uidWithNumber jdoe_record)"
    by (simp add: jdoe_world_def jdoe_record_def zero_User_def zero_LdapUser_def)
  with buildLdapUserName_policy [OF ok, of jdoe_record]
  have "fst (buildLdapUserName quiet_env jdoe_record jdoe_world) =
         Inr (if User_Ldap (hd (users jdoe_world)) = LdapUser_Uuid jdoe_record then User_Name (hd (users jdoe_world))
              else if User_Name (hd (users jdoe_world)) = LdapUser_Uid jdoe_record
                then LdapUser_Uid jdoe_record @ ''_'' @ LdapUser_UidNumber jdoe_record
              else LdapUser_Uid jdoe_record @ ''_'' @ LdapUser_UidNumber jdoe_record @ ''_'' @
                   randstr_Hex quiet_env (record_call (Call_GetUserByNames (LdapUser_Uid jdoe_record)
                     (uidWithNumber jdoe_record)) jdoe_world) 6)"
    by blast
  then have b: "fst (buildLdapUserName quiet_env jdoe_record jdoe_world) = Inr ''jdoe_1001''"
    by (simp add: jdoe_world_def jdoe_record_def zero_User_def zero_LdapUser_def)
  have "users composite_world = [] @ hd (users composite_world) # [] \<and>
       (\<forall>u\<in>set []. User_Name u \<noteq> LdapUser_Uid jdoe_record \<and> User_Name u \<noteq> uidWithNumber jdoe_record) \<and>
       (User_Name (hd (users composite_world)) = LdapUser_Uid jdoe_record
          \<or> User_Name (hd (users composite_world)) = uidWithNumber jdoe_record)"
    by (simp add: composite_world_def jdoe_record_def uidWithNumber_def zero_User_def zero_LdapUser_def)
  with buildLdapUserName_policy [OF ok', of jdoe_record]
  have "fst (buildLdapUserName quiet_env jdoe_record composite_world) =
         Inr (if User_Ldap (hd (users composite_world)) = LdapUser_Uuid jdoe_record
                then User_Name (hd (users composite_world))
              else if User_Name (hd (users composite_world)) = LdapUser_Uid jdoe_record
                then LdapUser_Uid jdoe_record @ ''_'' @ LdapUser_UidNumber jdoe_record
              else LdapUser_Uid jdoe_record @ ''_'' @ LdapUser_UidNumber jdoe_record @ ''_'' @
                   randstr_Hex quiet_env (record_call (Call_GetUserByNames (LdapUser_Uid jdoe_record)
                     (uidWithNumber jdoe_record)) composite_world) 6)"
    by blast
  then have c: "fst (buildLdapUserName quiet_env jdoe_record composite_world) = Inr ''jdoe_1001_abcdef''"
    by (simp add: composite_world_def jdoe_record_def zero_User_def zero_LdapUser_def
          randstr_Hex_def hex_digits_def quiet_env_def upt_rec [of 0 6] upt_rec [of _ 6])
  from ok b ok' c show ?thesis
    by simp
qed
subsection \<open>SyncUserFromLdap when no directory has the user\<close>

lemma servers_without_match:
  assumes "\<forall>s\<in>set ldaps.
             (ldapId \<noteq> [] \<and> Ldap_Id s \<noteq> ldapId) \<or>
             (\<forall>w'. isl (GetLdapConn e w' s)) \<or>
             (\<forall>w' conn. fst (GetLdapUsers e w' conn s user) = [])"
  shows "fst (SyncUserFromLdap_loop e organization ldapId user password lang ldaps w) = Return (None, None)
       \<and> users (snd (SyncUserFromLdap_loop e organization ldapId user password lang ldaps w)) = users w"
  using assms
proof (induction ldaps arbitrary: w)
  case Nil
  show ?case by simp
next
  case (Cons s rest)
  have rest: "\<And>w'. fst (SyncUserFromLdap_loop e organization ldapId user password lang rest w') = Return (None, None)
       \<and> users (snd (SyncUserFromLdap_loop e organization ldapId user password lang rest w')) = users w'"
    using Cons by simp
  from Cons.prems consider
      (skip) "ldapId \<noteq> [] \<and> Ldap_Id s \<noteq> ldapId"
    | (dial) "\<not> (ldapId \<noteq> [] \<and> Ldap_Id s \<noteq> ldapId)" "\<forall>w'. isl (GetLdapConn e w' s)"
    | (empty) "\<not> (ldapId \<noteq> [] \<and> Ldap_Id s \<noteq> ldapId)" "\<forall>w' conn. fst (GetLdapUsers e w' conn s user) = []"
    by auto
  then show ?case
  proof cases
    case skip
    then show ?thesis using rest by simp
  next
    case dial
    then obtain err where "GetLdapConn e w s = Inl err"
      by (metis isl_def)
    with dial(1) show ?thesis using rest by (simp add: Let_def record_call_def)
  next
    case empty
    show ?thesis
    proof (cases "GetLdapConn e w s")
      case (Inl err)
      with empty(1) show ?thesis using rest by (simp add: Let_def record_call_def)
    next
      case (Inr conn)
      with empty show ?thesis using rest by (simp add: Let_def record_call_def)
    qed
  qed
qed

text \<open>
  Claim C10.  When \<open>GetLdaps\<close> succeeds and every configured server is skipped (its id is
  not the requested one), fails to connect, or returns zero entries, \<open>SyncUserFromLdap\<close>
  returns a nil user and a nil error, whichever of the three happened, and the user table
  is left as it was.
\<close>

theorem SyncUserFromLdap_no_match:
  assumes "GetLdaps e w organization = Inr ldaps"
    and "\<forall>s\<in>set ldaps.
             (ldapId \<noteq> [] \<and> Ldap_Id s \<noteq> ldapId) \<or>
             (\<forall>w'. isl (GetLdapConn e w' s)) \<or>
             (\<forall>w' conn. fst (GetLdapUsers e w' conn s (zero_User\<lparr>User_Name := userName\<rparr>)) = [])"
  shows "fst (SyncUserFromLdap e organization ldapId userName password lang w) = Return (None, None)
       \<and> users (snd (SyncUserFromLdap e organization ldapId userName password lang w)) = users w"
  using assms(1) servers_without_match [OF assms(2)]
  by (simp add: SyncUserFromLdap_def Let_def record_call_def)

theorem SyncUserFromLdap_no_match_witness:
  "GetLdaps two_servers_env jdoe_world ''org'' =
      Inr [example_ldap ''ldap-a'' False, example_ldap ''ldap-b'' False]
   \<and> isl (GetLdapConn two_servers_env jdoe_world (example_ldap ''ldap-a'' False))
   \<and> \<not> isl (GetLdapConn two_servers_env jdoe_world (example_ldap ''ldap-b'' False))
   \<and> fst (SyncUserFromLdap two_servers_env ''org'' [] ''jdoe'' ''secret'' ''en'' jdoe_world) = Return (None, None)"
proof -
  have a: "GetLdaps two_servers_env jdoe_world ''org'' =
      Inr [example_ldap ''ldap-a'' False, example_ldap ''ldap-b'' False]"
    by (simp add: two_servers_env_def quiet_env_def)
  have b: "\<forall>s\<in>set [example_ldap ''ldap-a'' False, example_ldap ''ldap-b'' False].
             ([] \<noteq> [] \<and> Ldap_Id s \<noteq> []) \<or>
             (\<forall>w'. isl (GetLdapConn two_servers_env w' s)) \<or>
             (\<forall>w' conn. fst (GetLdapUsers two_servers_env w' conn s (zero_User\<lparr>User_Name := ''jdoe''\<rparr>)) = [])"
    by (simp add: two_servers_env_def quiet_env_def example_ldap_def)
  have c: "isl (GetLdapConn two_servers_env jdoe_world (example_ldap ''ldap-a'' False))
     \<and> \<not> isl (GetLdapConn two_servers_env jdoe_world (example_ldap ''ldap-b'' False))"
    by (simp add: two_servers_env_def quiet_env_def example_ldap_def)
  from SyncUserFromLdap_no_match [OF a b, of "''secret''" "''en''"] a c show ?thesis by simp
qed

subsection \<open>Records that already have a local account\<close>



subsection \<open>The lookup of the existing uuids\<close>

text \<open>
  Claim C3, as amended.  Every lookup of the existing uuids that a run of
  \<open>SyncLdapUsers\<close> makes is keyed by the owner and by the uuids of the whole batch.
  The run makes at most one lookup per record, and exactly one per record when it
  returns without an error.
\<close>

theorem SyncLdapUsers_query_per_record:
  "(\<forall>c\<in>set (new_calls w (snd (SyncLdapUsers e owner syncUsers ldapId w))).
       is_GetExistUuids c \<longrightarrow> c = Call_GetExistUuids owner (map LdapUser_Uuid syncUsers)) \<and>
   queries (snd (SyncLdapUsers e owner syncUsers ldapId w)) \<le> queries w + length syncUsers \<and>
   (clean_return (fst (SyncLdapUsers e owner syncUsers ldapId w)) \<longrightarrow>
      queries (snd (SyncLdapUsers e owner syncUsers ldapId w)) = queries w + length syncUsers)"
proof (intro conjI)
  show "\<forall>c\<in>set (new_calls w (snd (SyncLdapUsers e owner syncUsers ldapId w))).
       is_GetExistUuids c \<longrightarrow> c = Call_GetExistUuids owner (map LdapUser_Uuid syncUsers)"
    using grows_new_calls [OF SyncLdapUsers_grows [of w e owner syncUsers ldapId]] by simp
next
  show "queries (snd (SyncLdapUsers e owner syncUsers ldapId w)) \<le> queries w + length syncUsers"
  proof (cases rule: SyncLdapUsers_cases [of e owner syncUsers ldapId w])
    case (panic w')
    then show ?thesis by simp
  next
    case (loop cx err)
    then show ?thesis
      using loop_queries [of e cx err syncUsers "[]" "[]" "start_world owner ldapId w"]
      by (simp add: start_world_facts)
  qed
next
  show "clean_return (fst (SyncLdapUsers e owner syncUsers ldapId w)) \<longrightarrow>
      queries (snd (SyncLdapUsers e owner syncUsers ldapId w)) = queries w + length syncUsers"
  proof (cases rule: SyncLdapUsers_cases [of e owner syncUsers ldapId w])
    case (panic w')
    then show ?thesis by simp
  next
    case (loop cx err)
    then show ?thesis
      using loop_queries [of e cx err syncUsers "[]" "[]" "start_world owner ldapId w"]
      by (simp add: start_world_facts)
  qed
qed

theorem SyncLdapUsers_query_per_record_witness:
  "clean_return (fst (SyncLdapUsers quiet_env ''org'' [bob_record, carol_record] ''ldap-a'' linked_world)) \<and>
   queries (snd (SyncLdapUsers quiet_env ''org'' [bob_record, carol_record] ''ldap-a'' linked_world))
     = queries linked_world + 2"
proof -
  have run: "clean_return (fst (SyncLdapUsers quiet_env ''org'' [bob_record, carol_record] ''ldap-a'' linked_world))"
    by (simp add: run_defs)
  with SyncLdapUsers_query_per_record [of linked_world quiet_env "''org''" "[bob_record, carol_record]" "''ldap-a''"]
  show ?thesis
    by simp
qed

text \<open>
  The claim as it was stated fails.  A batch of two records makes two lookups, each
  keyed by both uuids.
\<close>

theorem SyncLdapUsers_two_records_two_queries:
  "queries linked_world = 0 \<and>
   queries (snd (SyncLdapUsers quiet_env ''org'' [bob_record, carol_record] ''ldap-a'' linked_world)) = 2 \<and>
   filter is_GetExistUuids (new_calls linked_world
      (snd (SyncLdapUsers quiet_env ''org'' [bob_record, carol_record] ''ldap-a'' linked_world)))
     = [Call_GetExistUuids ''org'' [''uuid-bob'', ''uuid-carol''],
        Call_GetExistUuids ''org'' [''uuid-bob'', ''uuid-carol'']]"
  by (simp add: run_defs)

subsection \<open>A record whose account is not created\<close>

text \<open>
  Claim C2, as amended.  Let the queries of the store and \<open>GetInitScore\<close> succeed, the
  organization exist, and the record's uuid not be among the owner's users.  When
  \<open>AddUser\<close> answers for the record's account with \<open>affected = false\<close> and no error,
  the loop goes on with the remaining records, with the record appended to
  \<open>failedUsers\<close> and the user table as it was.
\<close>

theorem SyncLdapUsers_not_affected_continues:
  assumes orm: "\<forall>w'. orm_error e w' = None"
    and score: "\<forall>w'. \<exists>score. GetInitScore e w' (ctx_organization cx) = Inr score"
    and org: "ctx_organization cx \<noteq> None"
    and missing: "\<not> local_uuid w (ctx_owner cx) (LdapUser_Uuid x)"
    and rejected: "\<forall>w' u. User_Ldap u = LdapUser_Uuid x \<longrightarrow> (\<exists>s. AddUser e w' u = Inr (False, s))"
  shows "SyncLdapUsers_loop e cx err (x # rest) existUsers failedUsers w =
           SyncLdapUsers_loop e cx err rest existUsers (failedUsers @ [x])
             (step_world (SyncLdapUsers_step e cx x existUsers failedUsers w)) \<and>
         users (step_world (SyncLdapUsers_step e cx x existUsers failedUsers w)) = users w"
proof -
  let ?w1 = "record_call (Call_GetExistUuids (ctx_owner cx) (ctx_uuids cx)) w"
  from orm have o: "orm_error e w = None" and o1: "orm_error e ?w1 = None"
    by simp_all
  from name_lookup_ok [OF o1, of x] obtain name w2
    where b: "buildLdapUserName e x ?w1 = (Inr name, w2)" and u2: "users w2 = users w"
    by auto
  from score obtain sc where "GetInitScore e w2 (ctx_organization cx) = Inr sc"
    by blast
  from create_not_affected [OF this org rejected, of name] obtain w3
    where c: "SyncLdapUsers_create e cx x name w2 = NotAffected w3" and u3: "users w3 = users w2"
    by auto
  from missing have "\<not> (LdapUser_Uuid x \<in> set (ctx_uuids cx) \<and> local_uuid w (ctx_owner cx) (LdapUser_Uuid x))"
    by simp
  from step_not_found [OF o b this, of existUsers failedUsers] c
  have "SyncLdapUsers_step e cx x existUsers failedUsers w = Next existUsers (failedUsers @ [x]) w3"
    by simp
  then show ?thesis
    using u2 u3 by simp
qed

theorem SyncLdapUsers_not_affected_continues_witness:
  "\<not> local_uuid linked_world ''org'' (LdapUser_Uuid bob_record) \<and>
   SyncLdapUsers_loop bob_rejected_env batch_ctx None [bob_record, carol_record] [jdoe_record] [] linked_world =
     SyncLdapUsers_loop bob_rejected_env batch_ctx None [carol_record] [jdoe_record] [bob_record]
       (step_world (SyncLdapUsers_step bob_rejected_env batch_ctx bob_record [jdoe_record] [] linked_world)) \<and>
   fst (SyncLdapUsers bob_rejected_env ''org'' [jdoe_record, bob_record, carol_record] ''ldap-a'' linked_world)
     = Return ([jdoe_record], [bob_record], None) \<and>
   map User_Name (users (snd (SyncLdapUsers bob_rejected_env ''org'' [jdoe_record, bob_record, carol_record]
      ''ldap-a'' linked_world))) = [''jdoe'', ''carol'']"
proof -
  have orm: "\<forall>w'. orm_error bob_rejected_env w' = None"
    by (simp add: run_defs)
  have score: "\<forall>w'. \<exists>score. GetInitScore bob_rejected_env w' (ctx_organization batch_ctx) = Inr score"
    by (simp add: run_defs)
  have org: "ctx_organization batch_ctx \<noteq> None"
    by (simp add: batch_ctx_def)
  have missing: "\<not> local_uuid linked_world (ctx_owner batch_ctx) (LdapUser_Uuid bob_record)"
    by (simp add: run_defs batch_ctx_def)
  have rejected: "\<forall>w' u. User_Ldap u = LdapUser_Uuid bob_record \<longrightarrow>
      (\<exists>s. AddUser bob_rejected_env w' u = Inr (False, s))"
    by (simp add: run_defs)
  have run: "fst (SyncLdapUsers bob_rejected_env ''org'' [jdoe_record, bob_record, carol_record] ''ldap-a'' linked_world)
     = Return ([jdoe_record], [bob_record], None) \<and>
   map User_Name (users (snd (SyncLdapUsers bob_rejected_env ''org'' [jdoe_record, bob_record, carol_record]
      ''ldap-a'' linked_world))) = [''jdoe'', ''carol'']"
    by (simp add: run_defs)
  from SyncLdapUsers_not_affected_continues [OF orm score org missing rejected,
      of None "[carol_record]" "[jdoe_record]" "[]"] missing run
  show ?thesis
    by (simp add: batch_ctx_def)
qed

text \<open>
  The claim as it was stated fails.  When \<open>AddUser\<close> returns an error for the first of
  two records, the run returns \<open>nil, nil, err\<close>: the record is not in \<open>failedUsers\<close>
  and the second record is never looked up or created.
\<close>

theorem SyncLdapUsers_add_error_aborts:
  "fst (SyncLdapUsers add_error_env ''org'' [bob_record, carol_record] ''ldap-a'' linked_world)
     = Return ([], [], Some (Error ''insert failed'')) \<and>
   length (filter is_AddUser (new_calls linked_world
     (snd (SyncLdapUsers add_error_env ''org'' [bob_record, carol_record] ''ldap-a'' linked_world)))) = 1 \<and>
   queries (snd (SyncLdapUsers add_error_env ''org'' [bob_record, carol_record] ''ldap-a'' linked_world)) = 1"
  by (simp add: run_defs)

subsection \<open>The CAPTCHA status\<close>

text \<open>
  Claim C9.  When the lookup of the user succeeds, \<open>GetCaptchaStatus\<close> answers
  \<open>true\<close> for a user whose failed-sign-in counter is greater than or equal to the
  configured limit, \<open>false\<close> for a user whose counter is strictly below it, and
  \<open>false\<close> when the user does not exist.
\<close>

theorem GetCaptchaStatus_threshold:
  assumes "GetUserByFields (lookups E) (Input rq ''organization'') (Input rq ''user_id'') = Inr user"
  shows "(\<forall>u. user = Some u \<and> User_SigninWrongTimes u \<ge> SigninWrongTimesLimit (site E) \<longrightarrow>
            GetCaptchaStatus E rq c = respond (ResponseOk [DBool True]) c) \<and>
         (\<forall>u. user = Some u \<and> User_SigninWrongTimes u < SigninWrongTimesLimit (site E) \<longrightarrow>
            GetCaptchaStatus E rq c = respond (ResponseOk [DBool False]) c) \<and>
         (user = None \<longrightarrow> GetCaptchaStatus E rq c = respond (ResponseOk [DBool False]) c)"
  using assms by (auto simp: GetCaptchaStatus_def Let_def)

theorem GetCaptchaStatus_threshold_witness:
  "GetCaptchaStatus demo_cenv (captcha_request ''alice'') fresh_controller
      = respond (ResponseOk [DBool True]) fresh_controller \<and>
   GetCaptchaStatus demo_cenv (captcha_request ''bob'') fresh_controller
      = respond (ResponseOk [DBool False]) fresh_controller \<and>
   GetCaptchaStatus demo_cenv (captcha_request ''carol'') fresh_controller
      = respond (ResponseOk [DBool False]) fresh_controller"
proof -
  have a: "GetUserByFields (lookups demo_cenv) (Input (captcha_request ''alice'') ''organization'')
      (Input (captcha_request ''alice'') ''user_id'') = Inr (Some alice)"
    by (simp add: demo_defs)
  have b: "GetUserByFields (lookups demo_cenv) (Input (captcha_request ''bob'') ''organization'')
      (Input (captcha_request ''bob'') ''user_id'') = Inr (Some bob)"
    by (simp add: demo_defs)
  have c: "GetUserByFields (lookups demo_cenv) (Input (captcha_request ''carol'') ''organization'')
      (Input (captcha_request ''carol'') ''user_id'') = Inr None"
    by (simp add: demo_defs)
  have "User_SigninWrongTimes alice \<ge> SigninWrongTimesLimit (site demo_cenv)"
    and "User_SigninWrongTimes bob < SigninWrongTimesLimit (site demo_cenv)"
    by (simp_all add: demo_defs)
  with GetCaptchaStatus_threshold [OF a, of fresh_controller]
       GetCaptchaStatus_threshold [OF b, of fresh_controller]
       GetCaptchaStatus_threshold [OF c, of fresh_controller]
  show ?thesis by simp
qed

subsection \<open>The PKCE challenge method\<close>

text \<open>
  Claim C5.  Let the response type be \<open>code\<close> and the request parameter
  \<open>code_challenge_method\<close> be none of \<open>S256\<close>, \<open>null\<close> and the empty string.  Then
  \<open>HandleLoggedIn\<close> returns no response after exactly one reply, it makes no call at
  all, so \<open>GetOAuthCode\<close> is never reached and no code is issued, and when the request
  has passed the gates before the completion (permission, tag, subscription) the reply
  is the error \<open>Challenge method should be S256\<close>.
\<close>

theorem HandleLoggedIn_rejects_challenge_method:
  assumes "AuthForm_Type form = ResponseTypeCode"
    and "Input rq ''code_challenge_method'' \<noteq> ''S256''"
    and "Input rq ''code_challenge_method'' \<noteq> ''null''"
    and "Input rq ''code_challenge_method'' \<noteq> []"
  shows "(\<exists>r. HandleLoggedIn E rq application user form c = (Return None, respond r c)) \<and>
         (\<forall>k\<in>set (new_ctl_calls c (snd (HandleLoggedIn E rq application user form c))). \<not> is_GetOAuthCode k) \<and>
         (HandleLoggedIn_permission E application user = None \<and>
          HandleLoggedIn_subscription E application user = None \<longrightarrow>
            HandleLoggedIn E rq application user form c =
              (Return None, respond (ResponseError (T (site E) ''auth:Challenge method should be S256'') []) c))"
proof -
  have complete: "HandleLoggedIn_complete E rq application user form c =
      (Return None, respond (ResponseError (T (site E) ''auth:Challenge method should be S256'') []) c)"
    using assms
    by (simp add: HandleLoggedIn_complete_def Let_def ResponseTypeCode_def ResponseTypeLogin_def)
  then have shape: "\<exists>r. HandleLoggedIn E rq application user form c = (Return None, respond r c)"
    by (auto simp add: HandleLoggedIn_def split: option.splits)
  then have "new_ctl_calls c (snd (HandleLoggedIn E rq application user form c)) = []"
    by (auto simp: new_ctl_calls_def respond_def)
  with shape complete show ?thesis
    by (simp add: HandleLoggedIn_def)
qed

theorem HandleLoggedIn_rejects_challenge_method_witness:
  "HandleLoggedIn demo_cenv plain_request demo_application alice code_form alice_controller =
     (Return None, respond (ResponseError ''Challenge method should be S256'' []) alice_controller)"
proof -
  have gates: "HandleLoggedIn_permission demo_cenv demo_application alice = None \<and>
          HandleLoggedIn_subscription demo_cenv demo_application alice = None"
    by (simp add: ctl_defs demo_defs)
  have "AuthForm_Type code_form = ResponseTypeCode"
    and "Input plain_request ''code_challenge_method'' \<noteq> ''S256''"
    and "Input plain_request ''code_challenge_method'' \<noteq> ''null''"
    and "Input plain_request ''code_challenge_method'' \<noteq> []"
    by (simp_all add: ctl_defs demo_defs)
  from HandleLoggedIn_rejects_challenge_method [OF this, of demo_cenv demo_application alice alice_controller] gates
  show ?thesis
    by (simp add: demo_defs)
qed

subsection \<open>The state parameter of a provider login\<close>

text \<open>
  Claim C6.  Let the provider branch of \<open>Login\<close> resolve the application and a provider
  of category OAuth or Web3, and let the submitted \<open>state\<close> equal neither the configured
  \<open>authState\<close> nor the application's name.  Then \<open>Login\<close> returns before the external
  identity is known: it makes no call, so \<open>GetToken\<close> is never attempted, and its last
  reply is an error.  When the provider is visible to the application and the identity
  provider client is set up, that reply is the error \<open>State expected: ..., but got: ...\<close>.
\<close>

theorem Login_state_mismatch_rejected:
  assumes app: "(if AuthForm_ClientId authForm \<noteq> []
            then GetApplicationByClientId (lookups E) (AuthForm_ClientId authForm)
            else GetApplication (lookups E) (''admin/'' @ AuthForm_Application authForm))
          = Inr (Some application)"
    and prov: "GetProvider (lookups E) (util_GetId (site E) ''admin'' (AuthForm_Provider authForm))
          = Inr (Some provider)"
    and cat: "Provider_Category provider = ''OAuth'' \<or> Provider_Category provider = ''Web3''"
    and s1: "AuthForm_State authForm \<noteq> authState (site E)"
    and s2: "AuthForm_State authForm \<noteq> Application_Name application"
  shows "(\<exists>c'. Login_provider_identity E rq authForm c = Answered (Return ()) c' \<and>
              new_ctl_calls c c' = [] \<and> new_replies c c' \<noteq> [] \<and> is_error_reply (last (replies c'))) \<and>
         (IsProviderVisible (lookups E) application (Provider_Name provider) \<and>
          GetIdProvider (idp E) provider (AuthForm_RedirectUri authForm) \<and>
          setHttpClient E provider = None \<longrightarrow>
            last (replies (stage_controller (Login_provider_identity E rq authForm c))) =
              ResponseError (Sprintf (T (site E) ''auth:State expected: %s, but got: %s'')
                 [authState (site E), AuthForm_State authForm]) [])"
proof -
  obtain organization oerr where org: "GetOrganization (lookups E)
                 (util_GetId (site E) ''admin'' (Application_Organization application)) = (organization, oerr)"
    by force
  define c1 where "c1 = (case oerr of
                       Some err \<Rightarrow> respond (ResponseError (T (site E) (message err)) []) c
                     | None \<Rightarrow> c)"
  have c1: "calls c1 = calls c" "length (replies c) \<le> length (replies c1)"
    by (simp_all add: c1_def respond_def split: option.splits)
  have cat': "Provider_Category provider \<noteq> ''SAML''"
    using cat by auto
  have id: "Login_provider_identity E rq authForm c =
      (if \<not> IsProviderVisible (lookups E) application (Provider_Name provider) then
         Answered (Return ()) (respond (ResponseError
           (Sprintf (T (site E) ''auth:The provider: %s is not enabled for the application'')
              [Provider_Name provider]) []) c1)
       else Login_provider_oauth E authForm application organization provider c1)"
    using app prov cat cat' org
    by (simp add: Login_provider_identity_def c1_def Let_def)
  have oauth: "Login_provider_oauth E authForm application organization provider c1 =
      Answered (Return ()) (respond
        (if \<not> GetIdProvider (idp E) provider (AuthForm_RedirectUri authForm) then
           ResponseError (Sprintf (T (site E) ''storage:The provider type: %s is not supported'')
              [Provider_Type provider]) []
         else if setHttpClient E provider \<noteq> None then ResponseInternalServerError ''internal server error''
         else ResponseError (Sprintf (T (site E) ''auth:State expected: %s, but got: %s'')
                 [authState (site E), AuthForm_State authForm]) []) c1)"
    using s1 s2
    by (auto simp add: Login_provider_oauth_def split: option.splits)
  show ?thesis
    using c1 by (auto simp add: id oauth new_ctl_calls_def new_replies_def respond_def)
qed

theorem Login_state_mismatch_rejected_witness:
  "Login_provider_identity demo_cenv demo_request github_form fresh_controller =
     Answered (Return ()) (respond (ResponseError ''State expected: casdoor, but got: forged'' [])
        fresh_controller)"
proof -
  have app: "(if AuthForm_ClientId github_form \<noteq> []
            then GetApplicationByClientId (lookups demo_cenv) (AuthForm_ClientId github_form)
            else GetApplication (lookups demo_cenv) (''admin/'' @ AuthForm_Application github_form))
          = Inr (Some demo_application)"
    by (simp add: demo_defs)
  have prov: "GetProvider (lookups demo_cenv) (util_GetId (site demo_cenv) ''admin'' (AuthForm_Provider github_form))
          = Inr (Some demo_provider)"
    by (simp add: demo_defs)
  have cat: "Provider_Category demo_provider = ''OAuth'' \<or> Provider_Category demo_provider = ''Web3''"
    by (simp add: demo_defs)
  have s1: "AuthForm_State github_form \<noteq> authState (site demo_cenv)"
    by (simp add: demo_defs)
  have s2: "AuthForm_State github_form \<noteq> Application_Name demo_application"
    by (simp add: demo_defs)
  have pre: "IsProviderVisible (lookups demo_cenv) demo_application (Provider_Name demo_provider) \<and>
          GetIdProvider (idp demo_cenv) demo_provider (AuthForm_RedirectUri github_form) \<and>
          setHttpClient demo_cenv demo_provider = None"
    by (simp add: demo_defs ctl_defs)
  have run: "Login_provider_identity demo_cenv demo_request github_form fresh_controller =
     Answered (Return ()) (respond (ResponseError ''State expected: casdoor, but got: forged'' [])
        fresh_controller)"
    by (simp add: demo_defs ctl_defs Sprintf_extra_def)
  from Login_state_mismatch_rejected [OF app prov cat s1 s2, of demo_request fresh_controller] pre run
  show ?thesis
    by simp
qed

subsection \<open>Linking an external identity to the signed-in user\<close>




subsection \<open>A wrong one-time passcode\<close>

text \<open>
  Claim C8.  In the MFA-pending branch of \<open>Login\<close>, with the pending user found and
  the MFA utility of the requested type at hand, a passcode that the utility rejects is
  answered with \<open>OTP was wrong\<close> through \<open>ResponseUnprocessableEntity\<close>; the only call
  is the verification, and the session slots, the MFA-pending marker among them, are as
  before, so the request is still on the MFA branch.  Every later attempt from the state
  that the wrong attempt left takes the same branch, has the same outcome, leaves the
  same session and adds the same replies and calls as it would from the state before the
  wrong attempt; so an attempt with a correct passcode succeeds as if no wrong one had
  been made.
\<close>

theorem Login_mfa_wrong_passcode:
  assumes pending: "Login_branch authForm c = Branch_Mfa"
    and user: "GetUser (lookups E) (MfaUserSession c) = Inr (Some user)"
    and pass: "AuthForm_Passcode authForm \<noteq> []"
    and util: "GetMfaUtil (issuers E) (AuthForm_MfaType authForm) user = Some Verify"
    and wrong: "Verify (AuthForm_Passcode authForm) = Some err"
  shows "Login_mfa E rq authForm c =
           (Return (), respond (ResponseUnprocessableEntity ''OTP was wrong'')
              (invoke (Ctl_Verify (AuthForm_MfaType authForm) (AuthForm_Passcode authForm)) c)) \<and>
         same_session c (snd (Login_mfa E rq authForm c)) \<and>
         Login_branch authForm (snd (Login_mfa E rq authForm c)) = Branch_Mfa \<and>
         (\<forall>retry.
            Login_branch retry (snd (Login_mfa E rq authForm c)) = Login_branch retry c \<and>
            fst (Login_mfa E rq retry (snd (Login_mfa E rq authForm c))) = fst (Login_mfa E rq retry c) \<and>
            same_session (snd (Login_mfa E rq retry (snd (Login_mfa E rq authForm c))))
                         (snd (Login_mfa E rq retry c)) \<and>
            new_replies (snd (Login_mfa E rq authForm c))
                (snd (Login_mfa E rq retry (snd (Login_mfa E rq authForm c))))
              = new_replies c (snd (Login_mfa E rq retry c)) \<and>
            new_ctl_calls (snd (Login_mfa E rq authForm c))
                (snd (Login_mfa E rq retry (snd (Login_mfa E rq authForm c))))
              = new_ctl_calls c (snd (Login_mfa E rq retry c)))"
proof -
  let ?c' = "respond (ResponseUnprocessableEntity ''OTP was wrong'')
              (invoke (Ctl_Verify (AuthForm_MfaType authForm) (AuthForm_Passcode authForm)) c)"
  have run: "Login_mfa E rq authForm c = (Return (), ?c')"
    using user pass util wrong
    by (simp add: Login_mfa_def Login_mfa_factor_def Let_def)
  have same: "same_session ?c' c"
    by (simp add: same_session_def respond_def invoke_def)
  have branch: "Login_branch retry ?c' = Login_branch retry c" for retry
    by (simp add: Login_branch_def respond_def invoke_def)
  from Login_mfa_same_session [OF same] same branch pending show ?thesis
    unfolding run by (simp add: same_session_def)
qed

theorem Login_mfa_wrong_passcode_witness:
  "Login_mfa demo_cenv demo_request (passcode_form ''000000'') mfa_controller =
     (Return (), respond (ResponseUnprocessableEntity ''OTP was wrong'')
        (invoke (Ctl_Verify ''app'' ''000000'') mfa_controller)) \<and>
   MfaUserSession (snd (Login_mfa demo_cenv demo_request (passcode_form ''000000'') mfa_controller))
     = ''org/alice'' \<and>
   new_replies (snd (Login_mfa demo_cenv demo_request (passcode_form ''000000'') mfa_controller))
     (snd (Login_mfa demo_cenv demo_request (passcode_form ''123456'')
        (snd (Login_mfa demo_cenv demo_request (passcode_form ''000000'') mfa_controller))))
     = [ServeJSON (Some \<lparr>Response_Status = ''ok'', Response_Msg = [],
          Response_Data = DString ''org/alice'', Response_Data2 = DNil\<rparr>)]"
proof -
  have pending: "Login_branch (passcode_form ''000000'') mfa_controller = Branch_Mfa"
    by (simp add: ctl_defs demo_defs)
  have user: "GetUser (lookups demo_cenv) (MfaUserSession mfa_controller) = Inr (Some alice)"
    by (simp add: demo_defs)
  have pass: "AuthForm_Passcode (passcode_form ''000000'') \<noteq> []"
    by (simp add: demo_defs)
  have util: "GetMfaUtil (issuers demo_cenv) (AuthForm_MfaType (passcode_form ''000000'')) alice =
      Some (\<lambda>passcode. if passcode = ''123456'' then None else Some (Error ''invalid passcode''))"
    by (simp add: demo_defs)
  have wrong: "(\<lambda>passcode. if passcode = ''123456'' then None else Some (Error ''invalid passcode''))
      (AuthForm_Passcode (passcode_form ''000000'')) = Some (Error ''invalid passcode'')"
    by (simp add: demo_defs)
  have right: "new_replies mfa_controller
       (snd (Login_mfa demo_cenv demo_request (passcode_form ''123456'') mfa_controller))
     = [ServeJSON (Some \<lparr>Response_Status = ''ok'', Response_Msg = [],
          Response_Data = DString ''org/alice'', Response_Data2 = DNil\<rparr>)]"
    by (simp add: ctl_defs demo_defs)
  note inst = Login_mfa_wrong_passcode [OF pending user pass util wrong, of demo_request]
  from inst have a: "Login_mfa demo_cenv demo_request (passcode_form ''000000'') mfa_controller =
     (Return (), respond (ResponseUnprocessableEntity ''OTP was wrong'')
        (invoke (Ctl_Verify (AuthForm_MfaType (passcode_form ''000000''))
           (AuthForm_Passcode (passcode_form ''000000''))) mfa_controller))"
    by blast
  from inst have b: "new_replies (snd (Login_mfa demo_cenv demo_request (passcode_form ''000000'') mfa_controller))
     (snd (Login_mfa demo_cenv demo_request (passcode_form ''123456'')
        (snd (Login_mfa demo_cenv demo_request (passcode_form ''000000'') mfa_controller))))
     = new_replies mfa_controller
       (snd (Login_mfa demo_cenv demo_request (passcode_form ''123456'') mfa_controller))"
    by blast
  from inst have c: "same_session mfa_controller
      (snd (Login_mfa demo_cenv demo_request (passcode_form ''000000'') mfa_controller))"
    by blast
  have m: "MfaUserSession mfa_controller = ''org/alice''"
    by (simp add: demo_defs)
  from a have a': "Login_mfa demo_cenv demo_request (passcode_form ''000000'') mfa_controller =
     (Return (), respond (ResponseUnprocessableEntity ''OTP was wrong'')
        (invoke (Ctl_Verify ''app'' ''000000'') mfa_controller))"
    by (simp add: passcode_form_def zero_AuthForm_def)
  from c m have c': "MfaUserSession (snd (Login_mfa demo_cenv demo_request (passcode_form ''000000'') mfa_controller))
     = ''org/alice''"
    by (simp add: same_session_def)
  from a' b c' right show ?thesis
    by simp
qed

end
